theory Spec2Isabelle
  imports Main "HOL-Library.AList"
begin

section \<open>Values, errors and messages\<close>

text \<open>
  A Go \<open>error\<close> is modelled by the text its \<open>Error()\<close> method returns; a nil error is
  \<open>None\<close>.  Wrapping with \<open>fmt.Errorf("prefix: %w", err)\<close> is concatenation of the prefix
  and the wrapped text.
\<close>

type_synonym error = string

text \<open>
  Go's \<open>any\<close>: the nil interface, or a dynamic value.  A \<open>float64\<close> is carried by the decimal
  literal it was read from; an \<open>error\<close> stored in an interface by its text.
\<close>

datatype any =
    ANil
  | AString string
  | AInt int
  | AFloat string
  | ABool bool
  | AList "any list"
  | AMap "(string \<times> any) list"
  | AError string

text \<open>\<open>map[string]any\<close> as an association list; a nil map is the empty list.\<close>

type_synonym args = "(string \<times> any) list"

text \<open>pkg/models/models.go: the message roles and \<open>Message\<close>.\<close>

definition RoleSystem :: string where "RoleSystem = ''system''"
definition RoleUser :: string where "RoleUser = ''user''"
definition RoleAssistant :: string where "RoleAssistant = ''assistant''"
definition RoleTool :: string where "RoleTool = ''tool''"

record Message =
  Role :: string
  Content :: string
  Name :: string

section \<open>Library functions of Go used by the package\<close>

subsection \<open>\<open>strings\<close>\<close>

text \<open>
  \<open>strings.HasPrefix\<close>, and \<open>strings.Index\<close>: the index of the first occurrence of
  \<open>substr\<close> in \<open>s\<close>, or \<open>-1\<close>.
\<close>

fun HasPrefix :: "string \<Rightarrow> string \<Rightarrow> bool" where
  "HasPrefix s [] = True"
| "HasPrefix [] (p # ps) = False"
| "HasPrefix (c # cs) (p # ps) = (c = p \<and> HasPrefix cs ps)"

fun index_from :: "nat \<Rightarrow> string \<Rightarrow> string \<Rightarrow> int" where
  "index_from i [] substr = (if substr = [] then int i else -1)"
| "index_from i (c # cs) substr =
     (if HasPrefix (c # cs) substr then int i else index_from (Suc i) cs substr)"

definition strings_Index :: "string \<Rightarrow> string \<Rightarrow> int" where
  "strings_Index s substr = index_from 0 s substr"

text \<open>
  \<open>strings.TrimSpace\<close> removes the leading and trailing white space, as \<open>unicode.IsSpace\<close>
  defines it: the ASCII characters tab, line feed, vertical tab, form feed, carriage
  return and space, and U+0085, U+00A0, U+1680, U+2000 to U+200A, U+2028, U+2029, U+202F,
  U+205F and U+3000 in their UTF-8 encodings.  \<open>space_width s\<close> is the number of bytes of
  the white-space character \<open>s\<close> starts with (0 when it starts with none);
  \<open>space_width_rev\<close> is the same for the reversed string, read from its end.
\<close>

definition space_width :: "string \<Rightarrow> nat" where
  "space_width s =
     (case s of
        [] \<Rightarrow> 0
      | c # cs \<Rightarrow>
          if c \<in> set [CHR 0x09, CHR 0x0A, CHR 0x0B, CHR 0x0C, CHR 0x0D, CHR 0x20] then 1
          else if HasPrefix s [CHR 0xC2, CHR 0x85] \<or> HasPrefix s [CHR 0xC2, CHR 0xA0] then 2
          else if HasPrefix s [CHR 0xE1, CHR 0x9A, CHR 0x80] then 3
          else if HasPrefix s [CHR 0xE2, CHR 0x80] \<and>
                  (case drop 2 s of
                     [] \<Rightarrow> False
                   | d # ds \<Rightarrow> of_char d \<in> {0x80 .. (0x8A::nat)} \<or> d \<in> set [CHR 0xA8, CHR 0xA9, CHR 0xAF])
               then 3
          else if HasPrefix s [CHR 0xE2, CHR 0x81, CHR 0x9F] then 3
          else if HasPrefix s [CHR 0xE3, CHR 0x80, CHR 0x80] then 3
          else 0)"

lemma space_width_Nil: "0 < space_width s \<Longrightarrow> 0 < length s"
  by (cases s) (auto simp: space_width_def)

function TrimLeftSpace :: "string \<Rightarrow> string" where
  "TrimLeftSpace s = (if space_width s = 0 then s else TrimLeftSpace (drop (space_width s) s))"
  by pat_completeness auto
termination
  by (relation "measure length") (auto dest: space_width_Nil intro: diff_less)

definition space_width_rev :: "string \<Rightarrow> nat" where
  "space_width_rev r =
     (case r of
        [] \<Rightarrow> 0
      | c # cs \<Rightarrow>
          if c \<in> set [CHR 0x09, CHR 0x0A, CHR 0x0B, CHR 0x0C, CHR 0x0D, CHR 0x20] then 1
          else if HasPrefix r [CHR 0x85, CHR 0xC2] \<or> HasPrefix r [CHR 0xA0, CHR 0xC2] then 2
          else if HasPrefix r [CHR 0x80, CHR 0x9A, CHR 0xE1] then 3
          else if (of_char c \<in> {0x80 .. (0x8A::nat)} \<or> c \<in> set [CHR 0xA8, CHR 0xA9, CHR 0xAF]) \<and>
                  HasPrefix cs [CHR 0x80, CHR 0xE2]
               then 3
          else if HasPrefix r [CHR 0x9F, CHR 0x81, CHR 0xE2] then 3
          else if HasPrefix r [CHR 0x80, CHR 0x80, CHR 0xE3] then 3
          else 0)"

lemma space_width_rev_Nil: "0 < space_width_rev s \<Longrightarrow> 0 < length s"
  by (cases s) (auto simp: space_width_rev_def)

function TrimLeftSpace_rev :: "string \<Rightarrow> string" where
  "TrimLeftSpace_rev r =
     (if space_width_rev r = 0 then r else TrimLeftSpace_rev (drop (space_width_rev r) r))"
  by pat_completeness auto
termination
  by (relation "measure length") (auto dest: space_width_rev_Nil intro: diff_less)

definition strings_TrimSpace :: "string \<Rightarrow> string" where
  "strings_TrimSpace s = rev (TrimLeftSpace_rev (rev (TrimLeftSpace s)))"

subsection \<open>\<open>fmt\<close>\<close>

text \<open>The verb \<open>%d\<close> on an \<open>int\<close>: the decimal digits, with a minus sign when negative.\<close>

function digits_of :: "nat \<Rightarrow> string" where
  "digits_of n =
     (if n < 10 then [char_of (48 + n)] else digits_of (n div 10) @ [char_of (48 + n mod 10)])"
  by pat_completeness auto
termination
  by (relation "measure id") auto

definition fmt_d :: "int \<Rightarrow> string" where
  "fmt_d i = (if i < 0 then CHR ''-'' # digits_of (nat (- i)) else digits_of (nat i))"

text \<open>
  The verb \<open>%v\<close> on an \<open>any\<close>.  Two simplifications, in a text that only ends up in the
  content of a tool message: a \<open>float64\<close> prints as the literal it was read from, and a map
  prints its entries in the order they are stored (Go sorts them by key).
\<close>

fun join_with :: "string \<Rightarrow> string list \<Rightarrow> string" where
  "join_with sep [] = []"
| "join_with sep [x] = x"
| "join_with sep (x # y # ys) = x @ sep @ join_with sep (y # ys)"

fun fmt_v :: "any \<Rightarrow> string" where
  "fmt_v ANil = ''<nil>''"
| "fmt_v (AString s) = s"
| "fmt_v (AInt i) = fmt_d i"
| "fmt_v (AFloat lit) = lit"
| "fmt_v (ABool b) = (if b then ''true'' else ''false'')"
| "fmt_v (AList xs) = ''['' @ join_with '' '' (map fmt_v xs) @ '']''"
| "fmt_v (AMap ms) =
     ''map['' @ join_with '' '' (map (\<lambda>kv. fst kv @ '':'' @ fmt_v (snd kv)) ms) @ '']''"
| "fmt_v (AError e) = e"

subsection \<open>\<open>strconv\<close>\<close>

text \<open>
  The value of a string of decimal digits.
\<close>

definition is_digit :: "char \<Rightarrow> bool" where
  "is_digit c = (48 \<le> (of_char c :: nat) \<and> (of_char c :: nat) \<le> 57)"

definition decimal_value :: "string \<Rightarrow> int" where
  "decimal_value ds = foldl (\<lambda>acc c. 10 * acc + (of_char c - 48)) 0 ds"

text \<open>
  \<open>strconv.ParseFloat(s, 64)\<close> on a decimal literal: an optional sign, digits with an
  optional fraction, and an optional exponent.  It returns the \<open>float64\<close> nearest to the
  value, and a range error when that is infinite: when the value is at least
  \<open>2^1024 - 2^970\<close>, which lies half way between the largest \<open>float64\<close> and \<open>2^1024\<close>.  A
  value too small for a \<open>float64\<close> is no error.  Go reads the digits of the exponent
  only while the exponent is below 10000; \<open>exponent_value\<close> does the same.  As in Go's
  conversion, \<open>dp\<close> is the position of the decimal point after the first digit that is not
  zero: a value with \<open>dp\<close> above 310 is too large and one with \<open>dp\<close> below -330 rounds to
  zero, without further arithmetic.
\<close>

definition exponent_value :: "string \<Rightarrow> int" where
  "exponent_value ds = foldl (\<lambda>e c. if e < 10000 then e * 10 + (of_char c - 48) else e) 0 ds"

definition ParseFloat_range_error :: "string \<Rightarrow> bool" where
  "ParseFloat_range_error lit =
     (let s1 = (if HasPrefix lit ''-'' \<or> HasPrefix lit ''+'' then drop 1 lit else lit);
          ip = takeWhile is_digit s1;
          s2 = drop (length ip) s1;
          fr = (if HasPrefix s2 ''.'' then takeWhile is_digit (drop 1 s2) else []);
          s3 = (if HasPrefix s2 ''.'' then drop (1 + length fr) s2 else s2);
          hasexp = (HasPrefix s3 ''e'' \<or> HasPrefix s3 ''E'');
          s4 = drop 1 s3;
          eds = (if hasexp
                 then takeWhile is_digit
                        (if HasPrefix s4 ''-'' \<or> HasPrefix s4 ''+'' then drop 1 s4 else s4)
                 else []);
          e = (if hasexp \<and> HasPrefix s4 ''-'' then - exponent_value eds else exponent_value eds);
          nz = dropWhile (\<lambda>c. c = CHR ''0'') (ip @ fr);
          dp = int (length nz) - int (length fr) + e;
          m = decimal_value nz;
          ex = e - int (length fr)
      in if nz = [] then False
         else if 310 < dp then True
         else if dp < - 330 then False
         else if 0 \<le> ex then 2 ^ 1024 - 2 ^ 970 \<le> m * 10 ^ nat ex
         else (2 ^ 1024 - 2 ^ 970) * 10 ^ nat (- ex) \<le> m)"

subsection \<open>\<open>encoding/json\<close>\<close>

text \<open>
  \<open>json.Unmarshal\<close> of a text into the struct the agents decode a tool call into,

  \<^verbatim>\<open>var call struct {
      Tool string         `json:"tool"`
      Args map[string]any `json:"args"`
  }\<close>

  The text is first read as a JSON value (RFC 8259: white space, the three literals,
  numbers, strings with their escapes, arrays, objects); text that is no JSON value, or
  that goes on after the value, or that nests arrays and objects deeper than 10000, is
  an error.
\<close>

datatype json =
    JNull
  | JBool bool
  | JNumber string
  | JString string
  | JArray "json list"
  | JObject "(string \<times> json) list"

definition hexval :: "char \<Rightarrow> nat option" where
  "hexval c =
     (let n = (of_char c :: nat)
      in if 48 \<le> n \<and> n \<le> 57 then Some (n - 48)
         else if 97 \<le> n \<and> n \<le> 102 then Some (n - 87)
         else if 65 \<le> n \<and> n \<le> 70 then Some (n - 55)
         else None)"

fun getu4 :: "string \<Rightarrow> nat option" where
  "getu4 (a # b # c # d # rest) =
     (case (hexval a, hexval b, hexval c, hexval d) of
        (Some x3, Some x2, Some x1, Some x0) \<Rightarrow> Some (((x3 * 16 + x2) * 16 + x1) * 16 + x0)
      | _ \<Rightarrow> None)"
| "getu4 s = None"

definition utf8_EncodeRune :: "nat \<Rightarrow> string" where
  "utf8_EncodeRune r =
     (if r < 0x80 then [char_of r]
      else if r < 0x800 then [char_of (0xC0 + r div 0x40), char_of (0x80 + r mod 0x40)]
      else if (0xD800 \<le> r \<and> r \<le> 0xDFFF) \<or> 0x10FFFF < r then [CHR 0xEF, CHR 0xBF, CHR 0xBD]
      else if r < 0x10000 then
        [char_of (0xE0 + r div 0x1000), char_of (0x80 + (r div 0x40) mod 0x40),
         char_of (0x80 + r mod 0x40)]
      else
        [char_of (0xF0 + r div 0x40000), char_of (0x80 + (r div 0x1000) mod 0x40),
         char_of (0x80 + (r div 0x40) mod 0x40), char_of (0x80 + r mod 0x40)])"

definition decode_u :: "string \<Rightarrow> (string \<times> nat) option" where
  "decode_u es =
     (case getu4 es of
        None \<Rightarrow> None
      | Some rr \<Rightarrow>
          if 0xD800 \<le> rr \<and> rr \<le> 0xDFFF then
            (case (if HasPrefix (drop 4 es) [CHR 0x5C, CHR ''u''] then getu4 (drop 6 es) else None) of
               Some rr1 \<Rightarrow>
                 if rr < 0xDC00 \<and> 0xDC00 \<le> rr1 \<and> rr1 \<le> 0xDFFF
                 then Some (utf8_EncodeRune (0x10000 + (rr - 0xD800) * 0x400 + (rr1 - 0xDC00)), 10)
                 else Some ([CHR 0xEF, CHR 0xBF, CHR 0xBD], 4)
             | None \<Rightarrow> Some ([CHR 0xEF, CHR 0xBF, CHR 0xBD], 4))
          else Some (utf8_EncodeRune rr, 4))"

text \<open>
  \<open>utf8.DecodeRune\<close>, as far as the decoder of strings needs it: the number of bytes of the
  well-formed UTF-8 sequence the text starts with, or 0 when it starts with none.
\<close>

definition is_cont :: "char \<Rightarrow> bool" where
  "is_cont c = (0x80 \<le> (of_char c :: nat) \<and> (of_char c :: nat) \<le> 0xBF)"

definition utf8_width :: "string \<Rightarrow> nat" where
  "utf8_width s =
     (case s of
        [] \<Rightarrow> 0
      | b0 # s1 \<Rightarrow>
          (let n0 = (of_char b0 :: nat)
           in if n0 < 0x80 then 1
              else if n0 < 0xC2 \<or> 0xF4 < n0 then 0
              else
                (case s1 of
                   [] \<Rightarrow> 0
                 | b1 # s2 \<Rightarrow>
                     (let n1 = (of_char b1 :: nat);
                          lo = (if n0 = 0xE0 then 0xA0 else if n0 = 0xF0 then 0x90 else 0x80);
                          hi = (if n0 = 0xED then 0x9F else if n0 = 0xF4 then 0x8F else 0xBF)
                      in if n1 < lo \<or> hi < n1 then 0
                         else if n0 < 0xE0 then 2
                         else
                           (case s2 of
                              [] \<Rightarrow> 0
                            | b2 # s3 \<Rightarrow>
                                if \<not> is_cont b2 then 0
                                else if n0 < 0xF0 then 3
                                else (case s3 of
                                        [] \<Rightarrow> 0
                                      | b3 # s4 \<Rightarrow> if is_cont b3 then 4 else 0))))))"

definition simple_escape :: "char \<Rightarrow> char option" where
  "simple_escape e =
     (if e = CHR 0x22 \<or> e = CHR 0x5C \<or> e = CHR ''/'' then Some e
      else if e = CHR ''b'' then Some (CHR 0x08)
      else if e = CHR ''f'' then Some (CHR 0x0C)
      else if e = CHR ''n'' then Some (CHR 0x0A)
      else if e = CHR ''r'' then Some (CHR 0x0D)
      else if e = CHR ''t'' then Some (CHR 0x09)
      else None)"

fun lex_string :: "string \<Rightarrow> (string \<times> nat) option" where
  "lex_string [] = None"
| "lex_string (c # cs) =
     (if c = CHR 0x22 then Some ([], 1)
      else if c = CHR 0x5C then
        (case cs of
           [] \<Rightarrow> None
         | e # es \<Rightarrow>
             if e = CHR ''u'' then
               (case decode_u es of
                  None \<Rightarrow> None
                | Some (bytes, n) \<Rightarrow>
                    map_option (\<lambda>(str, k). (bytes @ str, k + n + 2)) (lex_string (drop n es)))
             else
               (case simple_escape e of
                  None \<Rightarrow> None
                | Some b \<Rightarrow> map_option (\<lambda>(str, k). (b # str, k + 2)) (lex_string es)))
      else if (of_char c :: nat) < 0x20 then None
      else if (of_char c :: nat) < 0x80 then
        map_option (\<lambda>(str, k). (c # str, Suc k)) (lex_string cs)
      else if utf8_width (c # cs) = 0 then
        map_option (\<lambda>(str, k). ([CHR 0xEF, CHR 0xBF, CHR 0xBD] @ str, Suc k)) (lex_string cs)
      else
        map_option (\<lambda>(str, k). (take (utf8_width (c # cs)) (c # cs) @ str, k + utf8_width (c # cs)))
          (lex_string (drop (utf8_width (c # cs) - 1) cs)))"

definition lex_number :: "string \<Rightarrow> (string \<times> nat) option" where
  "lex_number s =
     (let sign = (if HasPrefix s ''-'' then ''-'' else []);
          s1 = drop (length sign) s;
          ds = takeWhile is_digit s1;
          intpart = (if HasPrefix ds ''0'' then ''0'' else ds);
          s2 = drop (length intpart) s1;
          fr = (if HasPrefix s2 ''.'' then takeWhile is_digit (tl s2) else []);
          frac = (if HasPrefix s2 ''.'' then CHR ''.'' # fr else []);
          s3 = drop (length frac) s2;
          hasexp = (HasPrefix s3 ''e'' \<or> HasPrefix s3 ''E'');
          esign = (if hasexp \<and> (HasPrefix (tl s3) ''+'' \<or> HasPrefix (tl s3) ''-'')
                   then take 1 (tl s3) else []);
          eds = (if hasexp then takeWhile is_digit (drop (1 + length esign) s3) else []);
          ex = (if hasexp then take 1 s3 @ esign @ eds else [])
      in if intpart = [] \<or> (HasPrefix s2 ''.'' \<and> fr = []) \<or> (hasexp \<and> eds = []) then None
         else Some (sign @ intpart @ frac @ ex, length (sign @ intpart @ frac @ ex)))"

datatype token =
    TLBrace | TRBrace | TLBrack | TRBrack | TColon | TComma
  | TStr string | TNum string | TTrue | TFalse | TNull

fun tokenize :: "string \<Rightarrow> token list option" where
  "tokenize [] = Some []"
| "tokenize (c # cs) =
     (if c = CHR '' '' \<or> c = CHR 0x09 \<or> c = CHR 0x0D \<or> c = CHR 0x0A then tokenize cs
      else if c = CHR ''{'' then map_option ((#) TLBrace) (tokenize cs)
      else if c = CHR ''}'' then map_option ((#) TRBrace) (tokenize cs)
      else if c = CHR ''['' then map_option ((#) TLBrack) (tokenize cs)
      else if c = CHR '']'' then map_option ((#) TRBrack) (tokenize cs)
      else if c = CHR '':'' then map_option ((#) TColon) (tokenize cs)
      else if c = CHR '','' then map_option ((#) TComma) (tokenize cs)
      else if c = CHR 0x22 then
        (case lex_string cs of
           None \<Rightarrow> None
         | Some (str, n) \<Rightarrow> map_option ((#) (TStr str)) (tokenize (drop n cs)))
      else if c = CHR ''-'' \<or> is_digit c then
        (case lex_number (c # cs) of
           None \<Rightarrow> None
         | Some (lit, n) \<Rightarrow> map_option ((#) (TNum lit)) (tokenize (drop (n - 1) cs)))
      else if HasPrefix (c # cs) ''true'' then map_option ((#) TTrue) (tokenize (drop 3 cs))
      else if HasPrefix (c # cs) ''false'' then map_option ((#) TFalse) (tokenize (drop 4 cs))
      else if HasPrefix (c # cs) ''null'' then map_option ((#) TNull) (tokenize (drop 3 cs))
      else None)"

datatype frame = FArr "json list" | FObj "(string \<times> json) list" | FKey "(string \<times> json) list" string

datatype mode = ExpectValue | ExpectValueOrEnd | ExpectKeyOrEnd | ExpectKey | ExpectColon
  | AfterValue | Done json

fun push_value :: "json \<Rightarrow> frame list \<Rightarrow> (mode \<times> frame list) option" where
  "push_value v [] = Some (Done v, [])"
| "push_value v (FArr xs # st) = Some (AfterValue, FArr (xs @ [v]) # st)"
| "push_value v (FKey ms k # st) = Some (AfterValue, FObj (ms @ [(k, v)]) # st)"
| "push_value v (FObj ms # st) = None"

fun scalar :: "token \<Rightarrow> json option" where
  "scalar (TStr s) = Some (JString s)"
| "scalar (TNum n) = Some (JNumber n)"
| "scalar TTrue = Some (JBool True)"
| "scalar TFalse = Some (JBool False)"
| "scalar TNull = Some JNull"
| "scalar t = None"

fun parse_step :: "mode \<Rightarrow> frame list \<Rightarrow> token \<Rightarrow> (mode \<times> frame list) option" where
  "parse_step (Done v) st t = None"
| "parse_step ExpectColon st t = (if t = TColon then Some (ExpectValue, st) else None)"
| "parse_step ExpectKey st t =
     (case (t, st) of (TStr k, FObj ms # st') \<Rightarrow> Some (ExpectColon, FKey ms k # st') | _ \<Rightarrow> None)"
| "parse_step ExpectKeyOrEnd st t =
     (case (t, st) of
        (TStr k, FObj ms # st') \<Rightarrow> Some (ExpectColon, FKey ms k # st')
      | (TRBrace, FObj ms # st') \<Rightarrow> push_value (JObject ms) st'
      | _ \<Rightarrow> None)"
| "parse_step AfterValue st t =
     (case (t, st) of
        (TComma, FArr xs # st') \<Rightarrow> Some (ExpectValue, st)
      | (TRBrack, FArr xs # st') \<Rightarrow> push_value (JArray xs) st'
      | (TComma, FObj ms # st') \<Rightarrow> Some (ExpectKey, st)
      | (TRBrace, FObj ms # st') \<Rightarrow> push_value (JObject ms) st'
      | _ \<Rightarrow> None)"
| "parse_step m st t =
     (if t = TLBrack then
        (if int (length st) < 10000 then Some (ExpectValueOrEnd, FArr [] # st) else None)
      else if t = TLBrace then
        (if int (length st) < 10000 then Some (ExpectKeyOrEnd, FObj [] # st) else None)
      else if t = TRBrack \<and> m = ExpectValueOrEnd then
        (case st of FArr xs # st' \<Rightarrow> push_value (JArray xs) st' | _ \<Rightarrow> None)
      else (case scalar t of Some v \<Rightarrow> push_value v st | None \<Rightarrow> None))"

fun parse_tokens :: "mode \<Rightarrow> frame list \<Rightarrow> token list \<Rightarrow> json option" where
  "parse_tokens m st [] = (case m of Done v \<Rightarrow> Some v | _ \<Rightarrow> None)"
| "parse_tokens m st (t # ts) =
     (case parse_step m st t of None \<Rightarrow> None | Some (m', st') \<Rightarrow> parse_tokens m' st' ts)"

text \<open>
  The parser runs over the tokens with a stack of the arrays and objects that are open:
  \<open>FArr\<close> an array and its elements so far, \<open>FObj\<close> an object and its members so far,
  \<open>FKey\<close> an object with the key whose value is being read.  Go's scanner refuses to
  open an array or an object inside 10000 open ones (\<open>exceeded max depth\<close>).
\<close>

definition parse_json :: "string \<Rightarrow> json option" where
  "parse_json s = (case tokenize s of None \<Rightarrow> None | Some ts \<Rightarrow> parse_tokens ExpectValue [] ts)"

text \<open>
  A JSON value stored into an \<open>any\<close>: a number becomes a \<open>float64\<close>, an array a
  \<open>[]any\<close>, an object a \<open>map[string]any\<close> (a key given twice keeps its last value).
\<close>

fun json_to_any :: "json \<Rightarrow> any" where
  "json_to_any JNull = ANil"
| "json_to_any (JBool b) = ABool b"
| "json_to_any (JNumber lit) = AFloat lit"
| "json_to_any (JString s) = AString s"
| "json_to_any (JArray xs) = AList (map json_to_any xs)"
| "json_to_any (JObject ms) =
     AMap (foldl (\<lambda>m kv. AList.update (fst kv) (snd kv) m) []
             (map (\<lambda>kv. (fst kv, json_to_any (snd kv))) ms))"

text \<open>
  A number is stored by \<open>strconv.ParseFloat\<close>; when that fails with a range error the
  decoder saves a type error, goes on, and \<open>Unmarshal\<close> returns the error at the end.
  \<open>numbers_in_range\<close> tells that no number in a value fails so.
\<close>

fun numbers_in_range :: "json \<Rightarrow> bool" where
  "numbers_in_range (JNumber lit) = (\<not> ParseFloat_range_error lit)"
| "numbers_in_range (JArray xs) = list_all numbers_in_range xs"
| "numbers_in_range (JObject ms) = list_all (\<lambda>kv. numbers_in_range (snd kv)) ms"
| "numbers_in_range v = True"

text \<open>
  A key of the object names a field when it is the field's name, exactly or up to
  Unicode case folding: the ASCII letters fold to upper case, U+017F to \<open>S\<close> and U+212A
  to \<open>K\<close>.  The members are stored in the order of the text.  A \<open>null\<close> leaves a string
  field as it is and sets a map field to nil; a string is stored into \<open>Tool\<close>; the
  members of an object are stored into \<open>Args\<close>, which keeps the entries it has; any other
  value, and a number out of range among the members, is a type error, reported once the
  whole object has been read.  A text that is
  \<open>null\<close> decodes to the zero struct; a text that is neither an object nor \<open>null\<close> is a
  type error.
\<close>

fun foldName :: "string \<Rightarrow> string" where
  "foldName [] = []"
| "foldName (c # cs) =
     (if 97 \<le> (of_char c :: nat) \<and> (of_char c :: nat) \<le> 122
        then char_of ((of_char c :: nat) - 32) # foldName cs
      else if HasPrefix (c # cs) [CHR 0xC5, CHR 0xBF] then CHR ''S'' # foldName (drop 1 cs)
      else if HasPrefix (c # cs) [CHR 0xE2, CHR 0x84, CHR 0xAA] then CHR ''K'' # foldName (drop 2 cs)
      else c # foldName cs)"

record call =
  call_Tool :: string
  call_Args :: args

definition set_field :: "string \<times> json \<Rightarrow> call \<times> bool \<Rightarrow> call \<times> bool" where
  "set_field kv st =
     (let (c, ok) = st; key = fst kv; v = snd kv
      in if key = ''tool'' \<or> foldName key = ''TOOL'' then
           (case v of
              JString s \<Rightarrow> (c\<lparr>call_Tool := s\<rparr>, ok)
            | JNull \<Rightarrow> (c, ok)
            | _ \<Rightarrow> (c, False))
         else if key = ''args'' \<or> foldName key = ''ARGS'' then
           (case v of
              JObject ms \<Rightarrow>
                (c\<lparr>call_Args := foldl (\<lambda>m kv. AList.update (fst kv) (json_to_any (snd kv)) m)
                                    (call_Args c) ms\<rparr>,
                 ok \<and> numbers_in_range (JObject ms))
            | JNull \<Rightarrow> (c\<lparr>call_Args := []\<rparr>, ok)
            | _ \<Rightarrow> (c, False))
         else (c, ok))"

text \<open>
  The two kinds of error of \<open>json.Unmarshal\<close>.  Go's texts name the offending character or
  the value and the type; the model has one text for each kind.
\<close>

definition json_SyntaxError :: error where
  "json_SyntaxError = ''invalid JSON''"

definition json_UnmarshalTypeError :: error where
  "json_UnmarshalTypeError = ''json: cannot unmarshal value into Go value''"

definition json_Unmarshal_call :: "string \<Rightarrow> error + call" where
  "json_Unmarshal_call data =
     (case parse_json data of
        None \<Rightarrow> Inl json_SyntaxError
      | Some (JObject ms) \<Rightarrow>
          (let (c, ok) = foldl (\<lambda>st kv. set_field kv st) (\<lparr>call_Tool = [], call_Args = []\<rparr>, True) ms
           in if ok then Inr c else Inl json_UnmarshalTypeError)
      | Some JNull \<Rightarrow> Inr \<lparr>call_Tool = [], call_Args = []\<rparr>
      | Some _ \<Rightarrow> Inl json_UnmarshalTypeError)"

section \<open>The transcript (pkg/memory/memory.go)\<close>

record ToolCall =
  tc_Name :: string
  tc_Arguments :: args
  tc_Output :: any
  tc_Error :: string

text \<open>
  \<open>Step\<close>.  The two timestamps are left out: nothing reads them.  The wrappers
  \<open>TaskStep\<close>, \<open>SystemPromptStep\<close>, \<open>ActionStep\<close> and \<open>PlanningStep\<close> embed a \<open>Step\<close> and add
  fields (\<open>Task\<close>, \<open>SystemPrompt\<close>, \<open>Input\<close>, \<open>Output\<close>, \<open>Facts\<close>, \<open>Plan\<close>) that are written once
  and never read; the model keeps the embedded \<open>Step\<close> only.
\<close>

record Step =
  Type :: string
  Messages :: "Message list"
  ToolCalls :: "ToolCall list"

text \<open>
  \<open>Memory\<close> has a slice of \<open>Step\<close> values and a pointer \<open>curStep\<close>.  Every \<open>Add...Step\<close>
  allocates the wrapper on the heap, points \<open>curStep\<close> at the \<open>Step\<close> embedded in it and
  appends a copy of that \<open>Step\<close> to \<open>Steps\<close>:

  \<^verbatim>\<open>m.curStep = &actionStep.Step
  m.Steps = append(m.Steps, actionStep.Step)\<close>

  The pointer and the slice element are different objects, so the model has an explicit
  store: \<open>heap\<close> holds the allocated steps, an address is an index into it, \<open>curStep\<close> is an
  address or \<open>None\<close> (nil), and \<open>Steps\<close> holds values.
\<close>

type_synonym addr = nat

record Memory =
  Steps :: "Step list"
  curStep :: "addr option"
  heap :: "Step list"

definition NewMemory :: Memory where
  "NewMemory = \<lparr>Steps = [], curStep = None, heap = []\<rparr>"

text \<open>Reading and writing through a pointer to a step.\<close>

definition deref :: "addr \<Rightarrow> Memory \<Rightarrow> Step option" where
  "deref a m = (if a < length (heap m) then Some (heap m ! a) else None)"

definition heap_upd :: "addr \<Rightarrow> (Step \<Rightarrow> Step) \<Rightarrow> Memory \<Rightarrow> Memory" where
  "heap_upd a f m =
     (if a < length (heap m) then m\<lparr>heap := (heap m)[a := f (heap m ! a)]\<rparr> else m)"

text \<open>The body the four \<open>Add...Step\<close> methods share, with the step's \<open>Type\<close> as a parameter.\<close>

definition addStep :: "string \<Rightarrow> Message list \<Rightarrow> Memory \<Rightarrow> addr \<times> Memory" where
  "addStep ty messages m =
     (let s = \<lparr>Type = ty, Messages = messages, ToolCalls = []\<rparr>;
          a = length (heap m)
      in (a, m\<lparr>heap := heap m @ [s], curStep := Some a, Steps := Steps m @ [s]\<rparr>))"

definition AddTaskStep :: "string \<Rightarrow> Message list \<Rightarrow> Memory \<Rightarrow> addr \<times> Memory" where
  "AddTaskStep task messages m = addStep ''task'' messages m"

definition AddSystemPromptStep :: "string \<Rightarrow> Message list \<Rightarrow> Memory \<Rightarrow> addr \<times> Memory" where
  "AddSystemPromptStep systemPrompt messages m = addStep ''system_prompt'' messages m"

definition AddActionStep :: "string \<Rightarrow> Message list \<Rightarrow> Memory \<Rightarrow> addr \<times> Memory" where
  "AddActionStep input messages m = addStep ''action'' messages m"

definition AddPlanningStep ::
  "string \<Rightarrow> string \<Rightarrow> Message list \<Rightarrow> Memory \<Rightarrow> addr \<times> Memory" where
  "AddPlanningStep facts plan messages m = addStep ''planning'' messages m"

text \<open>
  \<open>AddToolCall\<close> returns nil when no step is open; otherwise it appends the record to
  \<open>m.curStep.ToolCalls\<close>, that is, to the heap object.
\<close>

definition AddToolCall ::
  "string \<Rightarrow> args \<Rightarrow> any \<Rightarrow> error option \<Rightarrow> Memory \<Rightarrow> ToolCall option \<times> Memory" where
  "AddToolCall name arguments output err m =
     (case curStep m of
        None \<Rightarrow> (None, m)
      | Some a \<Rightarrow>
          (let toolCall = \<lparr>tc_Name = name, tc_Arguments = arguments, tc_Output = output,
                            tc_Error = (case err of None \<Rightarrow> [] | Some e \<Rightarrow> e)\<rparr>
           in (Some toolCall, heap_upd a (\<lambda>s. s\<lparr>ToolCalls := ToolCalls s @ [toolCall]\<rparr>) m)))"

definition CompleteCurrentStep :: "Memory \<Rightarrow> Memory" where
  "CompleteCurrentStep m = (case curStep m of None \<Rightarrow> m | Some a \<Rightarrow> m\<lparr>curStep := None\<rparr>)"

definition GetSteps :: "Memory \<Rightarrow> Step list" where
  "GetSteps m = Steps m"

text \<open>The two loops \<open>for _, step := range m.Steps { xs = append(xs, step.F...) }\<close>.\<close>

definition GetToolCalls :: "Memory \<Rightarrow> ToolCall list" where
  "GetToolCalls m = foldl (\<lambda>toolCalls step. toolCalls @ ToolCalls step) [] (Steps m)"

definition GetMessages :: "Memory \<Rightarrow> Message list" where
  "GetMessages m = foldl (\<lambda>messages step. messages @ Messages step) [] (Steps m)"

subsection \<open>Scenarios over a transcript\<close>

text \<open>
  One opened-and-closed step: which \<open>Add...Step\<close> is called, with which arguments, the tool
  calls recorded while it is open, and the closing \<open>CompleteCurrentStep\<close>.
\<close>

datatype step_request =
    OpenSystemPrompt string "Message list"
  | OpenTask string "Message list"
  | OpenAction string "Message list"
  | OpenPlanning string string "Message list"

fun open_step :: "step_request \<Rightarrow> Memory \<Rightarrow> addr \<times> Memory" where
  "open_step (OpenSystemPrompt p ms) m = AddSystemPromptStep p ms m"
| "open_step (OpenTask t ms) m = AddTaskStep t ms m"
| "open_step (OpenAction i ms) m = AddActionStep i ms m"
| "open_step (OpenPlanning f p ms) m = AddPlanningStep f p ms m"

fun request_messages :: "step_request \<Rightarrow> Message list" where
  "request_messages (OpenSystemPrompt p ms) = ms"
| "request_messages (OpenTask t ms) = ms"
| "request_messages (OpenAction i ms) = ms"
| "request_messages (OpenPlanning f p ms) = ms"

type_synonym call_request = "string \<times> args \<times> any \<times> error option"

definition add_calls :: "call_request list \<Rightarrow> Memory \<Rightarrow> Memory" where
  "add_calls cs m = foldl (\<lambda>m (n, a, out, e). snd (AddToolCall n a out e m)) m cs"

definition open_close :: "step_request \<times> call_request list \<Rightarrow> Memory \<Rightarrow> Memory" where
  "open_close rc m = CompleteCurrentStep (add_calls (snd rc) (snd (open_step (fst rc) m)))"

definition open_close_all :: "(step_request \<times> call_request list) list \<Rightarrow> Memory \<Rightarrow> Memory" where
  "open_close_all rcs m = foldl (\<lambda>m rc. open_close rc m) m rcs"

section \<open>Tools and models as the agents see them\<close>

text \<open>pkg/tools: \<open>PropertyDef\<close>, \<open>ToolSchema\<close> and the interface \<open>Tool\<close>.\<close>

record PropertyDef =
  pd_Type :: string
  pd_Description :: string
  pd_Enum :: "string list"
  pd_Default :: any

text \<open>
  \<open>Properties\<close> is a Go map; the model keeps its entries in the order they were stored
  (Go iterates over a map in no fixed order).
\<close>

record ToolSchema =
  ts_Type :: string
  ts_Properties :: "(string \<times> PropertyDef) list"
  ts_Required :: "string list"

text \<open>
  A tool is what its four methods return.  \<open>Execute\<close> returns a value and an error, as in
  Go; the context argument is left out.
\<close>

record Tool =
  Tool_Name :: string
  Tool_Description :: string
  Tool_Schema :: ToolSchema
  Tool_Execute :: "args \<Rightarrow> any \<times> error option"

definition FormatToolDescription :: "Tool \<Rightarrow> string" where
  "FormatToolDescription tool =
     ''Tool Name: '' @ Tool_Name tool @ ''\<newline>'' @
     ''Description: '' @ Tool_Description tool @ ''\<newline>'' @
     (let schema = Tool_Schema tool
      in if length (ts_Properties schema) > 0 then
           ''Parameters:\<newline>'' @
           concat (map (\<lambda>np.
               ''  - '' @ fst np @ '': '' @ pd_Type (snd np) @
               (if fst np \<in> set (ts_Required schema) then '' (required)'' else []) @
               ''\<newline>    '' @ pd_Description (snd np) @ ''\<newline>'')
             (ts_Properties schema))
         else [])"

text \<open>
  pkg/models: the interface \<open>Model\<close>.  A model is a function from the messages (and the
  tool schemas) to a text and an error.  \<open>FunctionSchema\<close> is one entry of the list
  \<open>buildToolsSchema\<close> builds: \<open>{"type": "function", "function": {"name", "description",
  "parameters"}}\<close>.
\<close>

record FunctionSchema =
  fs_type :: string
  fs_name :: string
  fs_description :: string
  fs_parameters :: ToolSchema

record Model =
  Generate :: "Message list \<Rightarrow> string \<times> error option"
  GenerateWithTools :: "Message list \<Rightarrow> FunctionSchema list \<Rightarrow> string \<times> error option"

section \<open>Function tools (pkg/tools/tools.go)\<close>

subsection \<open>What \<open>reflect\<close> tells about a function\<close>

text \<open>
  \<open>reflect.Kind\<close> with the texts of \<open>Kind.String\<close>.
\<close>

datatype Kind =
    K_Invalid | K_Bool | K_Int | K_Int8 | K_Int16 | K_Int32 | K_Int64
  | K_Uint | K_Uint8 | K_Uint16 | K_Uint32 | K_Uint64 | K_Uintptr
  | K_Float32 | K_Float64 | K_Complex64 | K_Complex128
  | K_Array | K_Chan | K_Func | K_Interface | K_Map | K_Pointer | K_Slice | K_String
  | K_Struct | K_UnsafePointer

fun Kind_String :: "Kind \<Rightarrow> string" where
  "Kind_String K_Invalid = ''invalid''"
| "Kind_String K_Bool = ''bool''"
| "Kind_String K_Int = ''int''"
| "Kind_String K_Int8 = ''int8''"
| "Kind_String K_Int16 = ''int16''"
| "Kind_String K_Int32 = ''int32''"
| "Kind_String K_Int64 = ''int64''"
| "Kind_String K_Uint = ''uint''"
| "Kind_String K_Uint8 = ''uint8''"
| "Kind_String K_Uint16 = ''uint16''"
| "Kind_String K_Uint32 = ''uint32''"
| "Kind_String K_Uint64 = ''uint64''"
| "Kind_String K_Uintptr = ''uintptr''"
| "Kind_String K_Float32 = ''float32''"
| "Kind_String K_Float64 = ''float64''"
| "Kind_String K_Complex64 = ''complex64''"
| "Kind_String K_Complex128 = ''complex128''"
| "Kind_String K_Array = ''array''"
| "Kind_String K_Chan = ''chan''"
| "Kind_String K_Func = ''func''"
| "Kind_String K_Interface = ''interface''"
| "Kind_String K_Map = ''map''"
| "Kind_String K_Pointer = ''ptr''"
| "Kind_String K_Slice = ''slice''"
| "Kind_String K_String = ''string''"
| "Kind_String K_Struct = ''struct''"
| "Kind_String K_UnsafePointer = ''unsafe.Pointer''"

text \<open>
  A \<open>reflect.Type\<close>, as far as the package asks: its kind, its text (\<open>String\<close>) and
  whether it implements the interface \<open>error\<close>.
\<close>

record GoType =
  type_Kind :: Kind
  type_String :: string
  type_Implements_error :: bool

text \<open>
  The type of a function: \<open>In(0)\<close> .. \<open>In(NumIn() - 1)\<close>, \<open>Out(0)\<close> ..
  \<open>Out(NumOut() - 1)\<close> and \<open>IsVariadic()\<close>.  The last parameter of a variadic function
  \<open>func(..., xs ...T)\<close> has the slice type \<open>[]T\<close>.
\<close>

record FuncType =
  fn_In :: "GoType list"
  fn_Out :: "GoType list"
  fn_IsVariadic :: bool

text \<open>
  Code that returns a value or panics.
\<close>

datatype 'a outcome = Panics | Returns 'a

text \<open>
  The value \<open>fn\<close> handed to \<open>NewFunctionTool\<close>: a function with its type and its body, or
  a value of another kind.  The body takes the values of the parameters, the last one of
  a variadic function being the slice of the variadic arguments, and returns the results
  or panics (a nil function panics when it is called).  A nil interface, of which
  \<open>reflect.TypeOf\<close> returns no type, is not among these values.
\<close>

datatype GoValue = FuncValue FuncType "any list \<Rightarrow> any list outcome" | OtherValue Kind

text \<open>
  \<open>FunctionTool[F]\<close>.  The field \<open>fn\<close> is kept as its type and its body (\<open>Execute\<close> reads
  both through \<open>reflect\<close>).
\<close>

record FunctionTool =
  ft_name :: string
  ft_description :: string
  ft_fnType :: FuncType
  ft_fn :: "any list \<Rightarrow> any list outcome"
  ft_schema :: ToolSchema

subsection \<open>The schema of a function\<close>

definition goTypeToJSONType :: "GoType \<Rightarrow> error + string" where
  "goTypeToJSONType t =
     (let k = type_Kind t
      in if k = K_String then Inr ''string''
         else if k = K_Bool then Inr ''boolean''
         else if k \<in> set [K_Int, K_Int8, K_Int16, K_Int32, K_Int64,
                           K_Uint, K_Uint8, K_Uint16, K_Uint32, K_Uint64] then Inr ''integer''
         else if k \<in> set [K_Float32, K_Float64] then Inr ''number''
         else if k \<in> set [K_Slice, K_Array] then Inr ''array''
         else if k \<in> set [K_Map, K_Struct] then Inr ''object''
         else Inl (''unsupported type: '' @ type_String t))"

text \<open>\<open>fmt.Sprintf("arg%d", i)\<close>\<close>

definition arg_name :: "nat \<Rightarrow> string" where
  "arg_name i = ''arg'' @ fmt_d (int i)"

text \<open>
  The loop of \<open>createSchemaFromFunction\<close> over the parameters, from index \<open>i\<close> on.
  \<open>properties[paramName] = ...\<close> replaces the entry of the key or adds one.
\<close>

fun createSchema_loop ::
  "nat \<Rightarrow> GoType list \<Rightarrow> (string \<times> PropertyDef) list \<Rightarrow> string list \<Rightarrow>
     error + (string \<times> PropertyDef) list \<times> string list" where
  "createSchema_loop i [] properties required = Inr (properties, required)"
| "createSchema_loop i (paramType # rest) properties required =
     (let paramName = arg_name i
      in case goTypeToJSONType paramType of
           Inl err \<Rightarrow> Inl err
         | Inr jsonType \<Rightarrow>
             createSchema_loop (Suc i) rest
               (AList.update paramName
                  \<lparr>pd_Type = jsonType,
                   pd_Description = ''Parameter '' @ fmt_d (int i) @ '' of type '' @ type_String paramType,
                   pd_Enum = [], pd_Default = ANil\<rparr> properties)
               (required @ [paramName]))"

definition createSchemaFromFunction :: "FuncType \<Rightarrow> error + ToolSchema" where
  "createSchemaFromFunction fnType =
     (case createSchema_loop 0 (fn_In fnType) [] [] of
        Inl err \<Rightarrow> Inl err
      | Inr (properties, required) \<Rightarrow>
          Inr \<lparr>ts_Type = ''object'', ts_Properties = properties, ts_Required = required\<rparr>)"

definition NewFunctionTool :: "string \<Rightarrow> string \<Rightarrow> GoValue \<Rightarrow> error + FunctionTool" where
  "NewFunctionTool nm desc fn =
     (if nm = [] then Inl ''tool name cannot be empty''
      else if desc = [] then Inl ''tool description cannot be empty''
      else
        (case fn of
           OtherValue k \<Rightarrow> Inl (''fn must be a function, got '' @ Kind_String k)
         | FuncValue fnType impl \<Rightarrow>
             (case createSchemaFromFunction fnType of
                Inl err \<Rightarrow> Inl (''failed to create schema: '' @ err)
              | Inr schema \<Rightarrow>
                  Inr \<lparr>ft_name = nm, ft_description = desc, ft_fnType = fnType, ft_fn = impl,
                       ft_schema = schema\<rparr>)))"

text \<open>
  The kinds with a branch of their own in \<open>goTypeToJSONType\<close>.
\<close>

definition schema_supported :: "Kind \<Rightarrow> bool" where
  "schema_supported k =
     (k \<in> set [K_String, K_Bool, K_Int, K_Int8, K_Int16, K_Int32, K_Int64,
                K_Uint, K_Uint8, K_Uint16, K_Uint32, K_Uint64, K_Float32, K_Float64,
                K_Slice, K_Array, K_Map, K_Struct])"

subsection \<open>Calling the function\<close>











section \<open>Agents (pkg/agents)\<close>

text \<open>
  \<open>ToolCallingAgent\<close> and \<open>BaseAgent\<close> are two structs with the same seven fields;
  \<open>BaseAgent\<close> has an eighth, \<open>stepper\<close>.  The methods \<open>buildMessages\<close>,
  \<open>buildToolsDescription\<close>, \<open>extractToolCall\<close>, \<open>findTool\<close> and \<open>executeToolCall\<close> are
  written out twice in the source, once for each struct, with the same body; the model has
  each once, over both records.  A stepper receives the pointer to the action step; what it
  can change is the transcript.
\<close>

record ToolCallingAgent =
  tools :: "Tool list"
  model :: Model
  memory :: Memory
  maxSteps :: int
  systemPrompt :: string
  name :: string
  description :: string

type_synonym Stepper = "addr \<Rightarrow> Memory \<Rightarrow> (any \<times> error option) \<times> Memory"

record BaseAgent = ToolCallingAgent +
  stepper :: "Stepper option"

subsection \<open>Options and constructors\<close>

text \<open>
  An \<open>Option\<close> is a function on a pointer to a \<open>BaseAgent\<close> that returns an error: here, the
  error or the agent as the option leaves it.
\<close>

type_synonym Option = "BaseAgent \<Rightarrow> error + BaseAgent"

definition WithMaxSteps :: "int \<Rightarrow> Option" where
  "WithMaxSteps n a =
     (if n \<le> 0 then Inl ''maxSteps must be greater than 0'' else Inr (a\<lparr>maxSteps := n\<rparr>))"

definition WithSystemPrompt :: "string \<Rightarrow> Option" where
  "WithSystemPrompt p a = Inr (a\<lparr>systemPrompt := p\<rparr>)"

definition WithName :: "string \<Rightarrow> Option" where
  "WithName n a = Inr (a\<lparr>name := n\<rparr>)"

definition WithDescription :: "string \<Rightarrow> Option" where
  "WithDescription d a = Inr (a\<lparr>description := d\<rparr>)"

definition default_systemPrompt :: string where
  "default_systemPrompt = ''You are a helpful assistant that can use tools to help the user.''"

text \<open>\<open>NewBaseAgent\<close>: every option is applied to the agent being built.\<close>

fun apply_opts :: "Option list \<Rightarrow> BaseAgent \<Rightarrow> error + BaseAgent" where
  "apply_opts [] agent = Inr agent"
| "apply_opts (opt # opts) agent =
     (case opt agent of
        Inl err \<Rightarrow> Inl (''error applying option: '' @ err)
      | Inr agent' \<Rightarrow> apply_opts opts agent')"

definition NewBaseAgent :: "Tool list \<Rightarrow> Model option \<Rightarrow> Option list \<Rightarrow> error + BaseAgent" where
  "NewBaseAgent ts mdl opts =
     (if length ts = 0 then Inl ''at least one tool is required''
      else
        (case mdl of
           None \<Rightarrow> Inl ''model is required''
         | Some md \<Rightarrow>
             apply_opts opts
               \<lparr>tools = ts, model = md, memory = NewMemory, maxSteps = 20,
                systemPrompt = default_systemPrompt, name = ''BaseAgent'',
                description = ''A base agent implementation'', stepper = None\<rparr>))"

text \<open>
  \<open>NewToolCallingAgent\<close>: every option is applied to a \<open>BaseAgent\<close> made for that call from
  the fields of the agent,

  \<^verbatim>\<open>for _, opt := range opts {
      if err := opt(&BaseAgent{tools: agent.tools, ..., description: agent.description}); err != nil {
          return nil, fmt.Errorf("error applying option: %w", err)
      }
  }
  return agent, nil\<close>

  and only its error is looked at.
\<close>

fun apply_opts_to_copy :: "Option list \<Rightarrow> ToolCallingAgent \<Rightarrow> error + ToolCallingAgent" where
  "apply_opts_to_copy [] agent = Inr agent"
| "apply_opts_to_copy (opt # opts) agent =
     (case opt \<lparr>tools = tools agent, model = model agent, memory = memory agent,
                maxSteps = maxSteps agent, systemPrompt = systemPrompt agent,
                name = name agent, description = description agent, stepper = None\<rparr> of
        Inl err \<Rightarrow> Inl (''error applying option: '' @ err)
      | Inr copy \<Rightarrow> apply_opts_to_copy opts agent)"

definition NewToolCallingAgent ::
  "Tool list \<Rightarrow> Model option \<Rightarrow> Option list \<Rightarrow> error + ToolCallingAgent" where
  "NewToolCallingAgent ts mdl opts =
     (if length ts = 0 then Inl ''at least one tool is required''
      else
        (case mdl of
           None \<Rightarrow> Inl ''model is required''
         | Some md \<Rightarrow>
             apply_opts_to_copy opts
               \<lparr>tools = ts, model = md, memory = NewMemory, maxSteps = 20,
                systemPrompt = default_systemPrompt, name = ''ToolCallingAgent'',
                description = ''An agent specialized in calling tools and handling their output''\<rparr>))"

text \<open>\<open>CodeAgent\<close> is a struct that embeds a pointer to a \<open>BaseAgent\<close> and has no other field.\<close>

type_synonym CodeAgent = BaseAgent

definition CodeAgent_systemPrompt :: string where
  "CodeAgent_systemPrompt =
     ''You are a helpful assistant that can use tools to help the user.\<newline>'' @
     ''You will be given a user request, and your job is to create a final answer for the user.\<newline>'' @
     ''You have access to tools that can help you fulfill the user's request.\<newline>'' @
     ''If necessary, you can call these tools and use their output to craft a better answer.\<newline>'' @
     ''You can also generate and execute code to solve complex problems.\<newline>'' @
     ''When you have the answer to the user's request, respond with the relevant information.''"

definition NewCodeAgent :: "Tool list \<Rightarrow> Model option \<Rightarrow> Option list \<Rightarrow> error + CodeAgent" where
  "NewCodeAgent ts mdl opts =
     (case NewBaseAgent ts mdl opts of
        Inl err \<Rightarrow> Inl err
      | Inr baseAgent \<Rightarrow>
          (let a1 = (if name baseAgent = ''BaseAgent'' then baseAgent\<lparr>name := ''CodeAgent''\<rparr>
                     else baseAgent);
               a2 = (if description a1 = ''A base agent implementation''
                     then a1\<lparr>description := ''An agent specialized in generating and executing code''\<rparr>
                     else a1);
               a3 = (if systemPrompt a2 = default_systemPrompt
                     then a2\<lparr>systemPrompt := CodeAgent_systemPrompt\<rparr> else a2)
           in Inr a3))"

definition SetStepper :: "Stepper \<Rightarrow> BaseAgent \<Rightarrow> BaseAgent" where
  "SetStepper s a = a\<lparr>stepper := Some s\<rparr>"

subsection \<open>Building the prompt\<close>

definition buildToolsDescription :: "'z ToolCallingAgent_scheme \<Rightarrow> string" where
  "buildToolsDescription a =
     ''You have access to the following tools:\<newline>\<newline>'' @
     concat (map (\<lambda>tool. FormatToolDescription tool @ ''\<newline>'') (tools a)) @
     ''To use a tool, respond with a message formatted as follows:\<newline>'' @
     ''```json\<newline>'' @
     ''{\<newline>'' @
     ''  \"tool\": \"tool_name\",\<newline>'' @
     ''  \"args\": {\<newline>'' @
     ''    \"arg1\": \"value1\",\<newline>'' @
     ''    \"arg2\": \"value2\"\<newline>'' @
     ''  }\<newline>'' @
     ''}\<newline>'' @
     ''```\<newline>'' @
     ''If you want to provide a final answer, just respond with text instead.\<newline>''"

definition buildMessages :: "'z ToolCallingAgent_scheme \<Rightarrow> Message list" where
  "buildMessages a =
     [\<lparr>Role = RoleSystem, Content = systemPrompt a, Name = []\<rparr>] @
     (if length (tools a) > 0
      then [\<lparr>Role = RoleSystem, Content = buildToolsDescription a, Name = []\<rparr>] else []) @
     filter (\<lambda>msg. Role msg \<noteq> RoleSystem) (GetMessages (memory a))"

definition buildToolsSchema :: "'z ToolCallingAgent_scheme \<Rightarrow> FunctionSchema list" where
  "buildToolsSchema a =
     map (\<lambda>tool. \<lparr>fs_type = ''function'', fs_name = Tool_Name tool,
                   fs_description = Tool_Description tool, fs_parameters = Tool_Schema tool\<rparr>)
       (tools a)"

subsection \<open>Reading a tool call out of the response\<close>

text \<open>
  \<open>extractJSON\<close>.  After the fence has been found at \<open>start\<close>, the source continues

  \<^verbatim>\<open>start = strings.Index(s[start:], "\n")
  ...
  start += 1 // Skip the newline
  end := strings.Index(s[start:], "```")
  ...
  return strings.TrimSpace(s[start : start+end])\<close>

  so from the second assignment on \<open>start\<close> is an index into \<open>s[start:]\<close> that is used as an
  index into \<open>s\<close>.
\<close>

definition extractJSON :: "string \<Rightarrow> string" where
  "extractJSON s =
     (let start = strings_Index s ''```json'';
          start = (if start = -1 then strings_Index s ''```'' else start)
      in if start = -1 then []
         else
           (let start = strings_Index (drop (nat start) s) ''\<newline>''
            in if start = -1 then []
               else
                 (let start = start + 1;
                      endIdx = strings_Index (drop (nat start) s) ''```''
                  in if endIdx = -1 then []
                     else strings_TrimSpace (take (nat endIdx) (drop (nat start) s)))))"

text \<open>\<open>extractToolCall\<close> returns the tool name, the arguments and an error.\<close>

definition extractToolCall :: "string \<Rightarrow> string \<times> args \<times> error option" where
  "extractToolCall response =
     (let jsonStr = extractJSON response
      in if jsonStr = [] then ([], [], None)
         else
           (case json_Unmarshal_call jsonStr of
              Inl err \<Rightarrow> ([], [], Some (''failed to parse tool call: '' @ err))
            | Inr c \<Rightarrow>
                if call_Tool c = [] then ([], [], None)
                else (call_Tool c, call_Args c, None)))"

subsection \<open>Dispatching a tool call\<close>

definition findTool :: "'z ToolCallingAgent_scheme \<Rightarrow> string \<Rightarrow> error + Tool" where
  "findTool a nm =
     (case find (\<lambda>tool. Tool_Name tool = nm) (tools a) of
        Some tool \<Rightarrow> Inr tool
      | None \<Rightarrow> Inl (''tool not found: '' @ nm))"

definition executeToolCall ::
  "'z ToolCallingAgent_scheme \<Rightarrow> addr \<Rightarrow> string \<Rightarrow> args \<Rightarrow>
     (any \<times> error option) \<times> 'z ToolCallingAgent_scheme" where
  "executeToolCall a step toolName arguments =
     (case findTool a toolName of
        Inl err \<Rightarrow> ((ANil, Some err), a)
      | Inr tool \<Rightarrow>
          (let (result, err) = Tool_Execute tool arguments;
               a' = a\<lparr>memory := snd (AddToolCall toolName arguments result err (memory a))\<rparr>
           in if err \<noteq> None then ((ANil, err), a') else ((result, None), a')))"

text \<open>
  \<open>step.Messages\<close> read, and \<open>step.Messages = append(step.Messages, msg)\<close>, through the
  pointer the step function was given.
\<close>

definition step_Messages :: "addr \<Rightarrow> Memory \<Rightarrow> Message list" where
  "step_Messages step m = (case deref step m of Some s \<Rightarrow> Messages s | None \<Rightarrow> [])"

definition append_message :: "addr \<Rightarrow> Message \<Rightarrow> Memory \<Rightarrow> Memory" where
  "append_message step msg m = heap_upd step (\<lambda>s. s\<lparr>Messages := Messages s @ [msg]\<rparr>) m"

subsection \<open>The step of the tool-calling agent\<close>

definition ToolCallingAgent_Step ::
  "'z ToolCallingAgent_scheme \<Rightarrow> addr \<Rightarrow> (any \<times> error option) \<times> 'z ToolCallingAgent_scheme" where
  "ToolCallingAgent_Step a step =
     (let (response, err) =
            GenerateWithTools (model a) (step_Messages step (memory a)) (buildToolsSchema a)
      in case err of
           Some e \<Rightarrow> ((ANil, Some (''failed to generate response: '' @ e)), a)
         | None \<Rightarrow>
             (let a1 = a\<lparr>memory := append_message step
                          \<lparr>Role = RoleAssistant, Content = response, Name = []\<rparr> (memory a)\<rparr>;
                  (toolName, arguments, err) = extractToolCall response
              in case err of
                   Some e \<Rightarrow> ((ANil, Some (''failed to extract tool call: '' @ e)), a1)
                 | None \<Rightarrow>
                     if toolName = [] then ((AString response, None), a1)
                     else
                       (let ((result, err), a2) = executeToolCall a1 step toolName arguments
                        in case err of
                             Some e \<Rightarrow> ((ANil, Some (''failed to execute tool call: '' @ e)), a2)
                           | None \<Rightarrow>
                               ((ANil, None),
                                a2\<lparr>memory := append_message step
                                     \<lparr>Role = RoleTool, Content = fmt_v result, Name = toolName\<rparr>
                                     (memory a2)\<rparr>))))"

subsection \<open>The step of the code agent\<close>

text \<open>
  The three regular expressions of the code agent, each as the function that finds its
  matches.  In Go's syntax \<open>\w\<close> is an ASCII letter, digit or underscore, \<open>\s\<close> is one of tab,
  line feed, form feed, carriage return and space, \<open>\d\<close> is an ASCII digit and \<open>.\<close> is any
  character but the line feed.  A match is looked for at each position from the left, and
  the search for the next one starts where a match ends.
\<close>

definition is_word :: "char \<Rightarrow> bool" where
  "is_word c =
     (let n = (of_char c :: nat)
      in (48 \<le> n \<and> n \<le> 57) \<or> (65 \<le> n \<and> n \<le> 90) \<or> (97 \<le> n \<and> n \<le> 122) \<or> n = 95)"

definition is_space :: "char \<Rightarrow> bool" where
  "is_space c = (c = CHR 0x09 \<or> c = CHR 0x0A \<or> c = CHR 0x0C \<or> c = CHR 0x0D \<or> c = CHR 0x20)"

text \<open>
  \<open>extractCodeBlocks\<close>: all matches of \<^verbatim>\<open>```(?:\w+)?\n([\s\S]*?)```\<close>, each by its group.
  At a fence, the longest run of word characters must be followed by a line feed (no
  shorter run can be: the character after it would be a word character); the group is
  the text up to the next fence.  \<open>match_block\<close> returns the group and the length of the
  match.
\<close>

definition match_block :: "string \<Rightarrow> (string \<times> nat) option" where
  "match_block s =
     (if \<not> HasPrefix s ''```'' then None
      else
        (let lang = takeWhile is_word (drop 3 s);
             rest = drop (3 + length lang) s
         in if \<not> HasPrefix rest ''\<newline>'' then None
            else
              (let body = drop 1 rest; i = strings_Index body ''```''
               in if i = -1 then None
                  else Some (take (nat i) body, 3 + length lang + 1 + nat i + 3))))"

fun extractCodeBlocks :: "string \<Rightarrow> string list" where
  "extractCodeBlocks [] = []"
| "extractCodeBlocks (c # cs) =
     (case match_block (c # cs) of
        Some (block, n) \<Rightarrow> block # extractCodeBlocks (drop (n - 1) cs)
      | None \<Rightarrow> extractCodeBlocks cs)"

text \<open>
  \<open>extractToolCallFromCode\<close> takes the first match of \<^verbatim>\<open>(\w+)\s*\((.*?)\)\<close>: a run of word
  characters, white space, an opening parenthesis, and the text up to the first closing
  parenthesis on the same line.  \<open>match_call\<close> returns the two groups.
\<close>

definition match_call :: "string \<Rightarrow> (string \<times> string) option" where
  "match_call s =
     (let w = takeWhile is_word s;
          rest = dropWhile is_space (drop (length w) s)
      in if w = [] \<or> \<not> HasPrefix rest ''('' then None
         else
           (let inner = takeWhile (\<lambda>c. c \<noteq> CHR '')'' \<and> c \<noteq> CHR 0x0A) (drop 1 rest)
            in if HasPrefix (drop (1 + length inner) rest) '')'' then Some (w, inner) else None))"

fun find_call :: "string \<Rightarrow> (string \<times> string) option" where
  "find_call [] = None"
| "find_call (c # cs) =
     (case match_call (c # cs) of Some m \<Rightarrow> Some m | None \<Rightarrow> find_call cs)"

text \<open>
  The arguments are all matches of
  \<^verbatim>\<open>(\w+)\s*=\s*(?:"([^"]*)"|'([^']*)'|(\d+(?:\.\d+)?))\<close> in the second group.
  \<open>match_arg\<close> returns the four groups (a group that took no part in the match is empty)
  and the length of the match.
\<close>

definition match_arg :: "string \<Rightarrow> ((string \<times> string \<times> string \<times> string) \<times> nat) option" where
  "match_arg s =
     (let w = takeWhile is_word s;
          sp1 = takeWhile is_space (drop (length w) s);
          r1 = drop (length w + length sp1) s;
          sp2 = takeWhile is_space (drop 1 r1);
          v = drop (1 + length sp2) r1;
          n0 = length w + length sp1 + 1 + length sp2
      in if w = [] \<or> \<not> HasPrefix r1 ''='' then None
         else if HasPrefix v [CHR 0x22] \<and>
                 HasPrefix (drop (1 + length (takeWhile (\<lambda>c. c \<noteq> CHR 0x22) (drop 1 v))) v) [CHR 0x22]
           then (let q = takeWhile (\<lambda>c. c \<noteq> CHR 0x22) (drop 1 v)
                 in Some ((w, q, [], []), n0 + length q + 2))
         else if HasPrefix v [CHR 0x27] \<and>
                 HasPrefix (drop (1 + length (takeWhile (\<lambda>c. c \<noteq> CHR 0x27) (drop 1 v))) v) [CHR 0x27]
           then (let q = takeWhile (\<lambda>c. c \<noteq> CHR 0x27) (drop 1 v)
                 in Some ((w, [], q, []), n0 + length q + 2))
         else
           (let ds = takeWhile is_digit v;
                after = drop (length ds) v;
                fs = (if HasPrefix after ''.'' then takeWhile is_digit (drop 1 after) else []);
                num = (if fs = [] then ds else ds @ ''.'' @ fs)
            in if ds = [] then None else Some ((w, [], [], num), n0 + length num)))"

fun find_args :: "string \<Rightarrow> (string \<times> string \<times> string \<times> string) list" where
  "find_args [] = []"
| "find_args (c # cs) =
     (case match_arg (c # cs) of
        Some (g, n) \<Rightarrow> g # find_args (drop (n - 1) cs)
      | None \<Rightarrow> find_args cs)"

text \<open>
  \<open>fmt.Sscanf(s, "%d", &i)\<close> on a string of digits: its value, or no assignment (\<open>i\<close> stays
  0) when the value does not fit an \<open>int\<close> of 64 bits.  On a literal with a point the source
  uses \<open>%f\<close>, which reads the literal with \<open>strconv.ParseFloat\<close>: there is no assignment
  (\<open>f\<close> stays 0) on a range error; the \<open>float64\<close> is carried by the literal.
\<close>

definition Sscanf_d :: "string \<Rightarrow> int" where
  "Sscanf_d ds = (if decimal_value ds < 2 ^ 63 then decimal_value ds else 0)"

definition Sscanf_f :: "string \<Rightarrow> string" where
  "Sscanf_f lit = (if ParseFloat_range_error lit then ''0'' else lit)"

text \<open>
  The value of one argument: the source tests the groups for being non-empty, in this
  order, and stores nil when all three are empty.
\<close>

definition arg_value :: "string \<times> string \<times> string \<times> string \<Rightarrow> any" where
  "arg_value g =
     (case g of (argName, dq, sq, num) \<Rightarrow>
        if dq \<noteq> [] then AString dq
        else if sq \<noteq> [] then AString sq
        else if num \<noteq> [] then
          (if CHR ''.'' \<in> set num then AFloat (Sscanf_f num) else AInt (Sscanf_d num))
        else ANil)"

definition extractToolCallFromCode ::
  "'z ToolCallingAgent_scheme \<Rightarrow> string \<Rightarrow> string \<times> args \<times> error option" where
  "extractToolCallFromCode a code =
     (case find_call code of
        None \<Rightarrow> ([], [], None)
      | Some (toolName, argsStr) \<Rightarrow>
          if \<not> list_ex (\<lambda>tool. Tool_Name tool = toolName) (tools a) then ([], [], None)
          else
            (toolName,
             foldl (\<lambda>arguments g. AList.update (fst g) (arg_value g) arguments) [] (find_args argsStr),
             None))"

definition executeAndAddResToMem ::
  "'z ToolCallingAgent_scheme \<Rightarrow> addr \<Rightarrow> string \<Rightarrow> args \<Rightarrow>
     (any \<times> error option) \<times> 'z ToolCallingAgent_scheme" where
  "executeAndAddResToMem a step toolName arguments =
     (let ((result, err), a1) = executeToolCall a step toolName arguments
      in case err of
           Some e \<Rightarrow> ((ANil, Some (''failed to execute tool call: '' @ e)), a1)
         | None \<Rightarrow>
             ((ANil, None),
              a1\<lparr>memory := append_message step
                   \<lparr>Role = RoleTool, Content = fmt_v result, Name = toolName\<rparr> (memory a1)\<rparr>))"

fun code_blocks_loop ::
  "'z ToolCallingAgent_scheme \<Rightarrow> addr \<Rightarrow> string list \<Rightarrow>
     ((any \<times> error option) \<times> 'z ToolCallingAgent_scheme) option" where
  "code_blocks_loop a step [] = None"
| "code_blocks_loop a step (codeBlock # rest) =
     (case extractToolCallFromCode a codeBlock of
        (toolName, arguments, Some e) \<Rightarrow>
          Some ((ANil, Some (''failed to extract tool call from code: '' @ e)), a)
      | (toolName, arguments, None) \<Rightarrow>
          if toolName \<noteq> [] then Some (executeAndAddResToMem a step toolName arguments)
          else code_blocks_loop a step rest)"

definition CodeAgent_Step ::
  "'z ToolCallingAgent_scheme \<Rightarrow> addr \<Rightarrow> (any \<times> error option) \<times> 'z ToolCallingAgent_scheme" where
  "CodeAgent_Step a step =
     (let (response, err) = Generate (model a) (step_Messages step (memory a))
      in case err of
           Some e \<Rightarrow> ((ANil, Some (''failed to generate response: '' @ e)), a)
         | None \<Rightarrow>
             (let a1 = a\<lparr>memory := append_message step
                          \<lparr>Role = RoleAssistant, Content = response, Name = []\<rparr> (memory a)\<rparr>;
                  codeBlocks = extractCodeBlocks response
              in case code_blocks_loop a1 step codeBlocks of
                   Some r \<Rightarrow> r
                 | None \<Rightarrow>
                     (let (toolName, arguments, err) = extractToolCall response
                      in case err of
                           Some e \<Rightarrow> ((ANil, Some (''failed to extract tool call: '' @ e)), a1)
                         | None \<Rightarrow>
                             if toolName = [] then ((AString response, None), a1)
                             else executeAndAddResToMem a1 step toolName arguments)))"

subsection \<open>The control loop\<close>

text \<open>
  \<open>BaseAgent.Run\<close> and \<open>ToolCallingAgent.Run\<close> have the same body but for the call of the
  step: \<open>run_steps\<close> is the loop \<open>for step := 0; step < a.maxSteps; step++\<close> with that call
  as a parameter, over the number of iterations that are left.  It returns \<open>finalAnswer\<close>
  and \<open>lastError\<close> as the loop leaves them.
\<close>

fun run_steps ::
  "('z ToolCallingAgent_scheme \<Rightarrow> addr \<Rightarrow> (any \<times> error option) \<times> 'z ToolCallingAgent_scheme) \<Rightarrow>
     string \<Rightarrow> nat \<Rightarrow> 'z ToolCallingAgent_scheme \<Rightarrow>
     (any \<times> error option) \<times> 'z ToolCallingAgent_scheme" where
  "run_steps stepf task 0 a = ((ANil, None), a)"
| "run_steps stepf task (Suc k) a =
     (let messages = buildMessages a;
          (actionStep, mem) = AddActionStep task messages (memory a);
          ((result, err), a') = stepf (a\<lparr>memory := mem\<rparr>) actionStep;
          closed = a'\<lparr>memory := CompleteCurrentStep (memory a')\<rparr>
      in if err \<noteq> None then ((ANil, err), closed)
         else if result \<noteq> ANil then ((result, None), closed)
         else run_steps stepf task k closed)"

definition Run_with ::
  "('z ToolCallingAgent_scheme \<Rightarrow> addr \<Rightarrow> (any \<times> error option) \<times> 'z ToolCallingAgent_scheme) \<Rightarrow>
     'z ToolCallingAgent_scheme \<Rightarrow> string \<Rightarrow>
     (any \<times> error option) \<times> 'z ToolCallingAgent_scheme" where
  "Run_with stepf a task =
     (let a0 = a\<lparr>memory := NewMemory\<rparr>;
          systemMessages = [\<lparr>Role = RoleSystem, Content = systemPrompt a0, Name = []\<rparr>];
          a1 = a0\<lparr>memory := CompleteCurrentStep
                  (snd (AddSystemPromptStep (systemPrompt a0) systemMessages (memory a0)))\<rparr>;
          taskMessages = [\<lparr>Role = RoleUser, Content = task, Name = []\<rparr>];
          a2 = a1\<lparr>memory := CompleteCurrentStep (snd (AddTaskStep task taskMessages (memory a1)))\<rparr>;
          ((finalAnswer, lastError), a3) = run_steps stepf task (nat (maxSteps a2)) a2
      in if finalAnswer = ANil \<and> lastError = None
         then ((finalAnswer,
                Some (''agent reached maximum number of steps ('' @ fmt_d (maxSteps a3) @
                      '') without finding an answer'')), a3)
         else ((finalAnswer, lastError), a3))"

definition ToolCallingAgent_Run ::
  "ToolCallingAgent \<Rightarrow> string \<Rightarrow> (any \<times> error option) \<times> ToolCallingAgent" where
  "ToolCallingAgent_Run a task = Run_with ToolCallingAgent_Step a task"

text \<open>
  \<open>BaseAgent.Step\<close>, and the call of the step in \<open>BaseAgent.Run\<close>:

  \<^verbatim>\<open>if a.stepper != nil {
      result, err = a.stepper.Step(ctx, actionStep)
  } else {
      result, err = a.Step(ctx, actionStep)
  }\<close>

  where \<open>a\<close> is the \<open>*BaseAgent\<close>, so that \<open>a.Step\<close> is \<open>BaseAgent.Step\<close>.
\<close>

definition BaseAgent_Step :: "BaseAgent \<Rightarrow> addr \<Rightarrow> (any \<times> error option) \<times> BaseAgent" where
  "BaseAgent_Step a step = ((ANil, Some ''Step method must be implemented by derived agents''), a)"

definition BaseAgent_call_step :: "BaseAgent \<Rightarrow> addr \<Rightarrow> (any \<times> error option) \<times> BaseAgent" where
  "BaseAgent_call_step a actionStep =
     (case stepper a of
        Some s \<Rightarrow> (let (r, mem) = s actionStep (memory a) in (r, a\<lparr>memory := mem\<rparr>))
      | None \<Rightarrow> BaseAgent_Step a actionStep)"

definition BaseAgent_Run :: "BaseAgent \<Rightarrow> string \<Rightarrow> (any \<times> error option) \<times> BaseAgent" where
  "BaseAgent_Run a task = Run_with BaseAgent_call_step a task"

text \<open>
  \<open>CodeAgent\<close> declares no \<open>Run\<close>: \<open>agent.Run\<close> on a \<open>*CodeAgent\<close> is the method of the
  embedded \<open>*BaseAgent\<close>.
\<close>

definition CodeAgent_Run :: "CodeAgent \<Rightarrow> string \<Rightarrow> (any \<times> error option) \<times> CodeAgent" where
  "CodeAgent_Run a task = BaseAgent_Run a task"

subsection \<open>One iteration of the loop\<close>

text \<open>
  The two ends of an iteration: \<open>open_action\<close> builds the prompt and opens the action
  step, as the loop does before it calls the step function; \<open>close_step\<close> is the
  \<open>CompleteCurrentStep\<close> every path of the loop body ends with.
\<close>

definition open_action ::
  "'z ToolCallingAgent_scheme \<Rightarrow> string \<Rightarrow> addr \<times> 'z ToolCallingAgent_scheme" where
  "open_action a task =
     (fst (AddActionStep task (buildMessages a) (memory a)),
      a\<lparr>memory := snd (AddActionStep task (buildMessages a) (memory a))\<rparr>)"

definition close_step :: "'z ToolCallingAgent_scheme \<Rightarrow> 'z ToolCallingAgent_scheme" where
  "close_step a = a\<lparr>memory := CompleteCurrentStep (memory a)\<rparr>"

section \<open>The mocks of the test suite\<close>

text \<open>
  \<open>MockTool\<close> and \<open>MockModel\<close> of the agents' tests: a tool that returns its \<open>output\<close>, or
  its \<open>err\<close> when that is set, and a model that returns its \<open>generateResponse\<close>, or its
  \<open>generateError\<close> when that is set.
\<close>

definition MockTool :: "string \<Rightarrow> string \<Rightarrow> any \<Rightarrow> error option \<Rightarrow> Tool" where
  "MockTool nm desc output err =
     \<lparr>Tool_Name = nm, Tool_Description = desc,
      Tool_Schema =
        \<lparr>ts_Type = ''object'',
         ts_Properties =
           [(''arg1'', \<lparr>pd_Type = ''string'', pd_Description = ''Test argument'',
                       pd_Enum = [], pd_Default = ANil\<rparr>)],
         ts_Required = []\<rparr>,
      Tool_Execute = (\<lambda>arguments. case err of Some e \<Rightarrow> (ANil, Some e) | None \<Rightarrow> (output, None))\<rparr>"

definition MockModel :: "string \<Rightarrow> error option \<Rightarrow> Model" where
  "MockModel generateResponse generateError =
     \<lparr>Generate = (\<lambda>messages.
        case generateError of Some e \<Rightarrow> ([], Some e) | None \<Rightarrow> (generateResponse, None)),
      GenerateWithTools = (\<lambda>messages schemas.
        case generateError of Some e \<Rightarrow> ([], Some e) | None \<Rightarrow> (generateResponse, None))\<rparr>"

definition test_tool :: Tool where
  "test_tool = MockTool ''test_tool'' ''A test tool'' (AString ''tool output'') None"

definition failing_tool :: Tool where
  "failing_tool = MockTool ''test_tool'' ''A test tool'' ANil (Some ''boom'')"

text \<open>
  The agent \<open>NewToolCallingAgent\<close> returns for one tool and a mock model, and the way the
  tests call \<open>Step\<close>: on an action step opened on the agent's transcript with the task as
  its only message.
\<close>

definition mock_agent :: "Tool \<Rightarrow> string \<Rightarrow> ToolCallingAgent" where
  "mock_agent tool response =
     \<lparr>tools = [tool], model = MockModel response None, memory = NewMemory, maxSteps = 20,
      systemPrompt = default_systemPrompt, name = ''ToolCallingAgent'',
      description = ''An agent specialized in calling tools and handling their output''\<rparr>"

definition opened_agent :: "Tool \<Rightarrow> string \<Rightarrow> ToolCallingAgent" where
  "opened_agent tool response =
     (mock_agent tool response)
       \<lparr>memory := snd (AddActionStep ''test task''
                         [\<lparr>Role = RoleUser, Content = ''test task'', Name = []\<rparr>] NewMemory)\<rparr>"

definition step_test ::
  "ToolCallingAgent \<Rightarrow> string \<Rightarrow> (any \<times> error option) \<times> ToolCallingAgent" where
  "step_test a task =
     (let (step, mem) = AddActionStep task [\<lparr>Role = RoleUser, Content = task, Name = []\<rparr>] (memory a)
      in ToolCallingAgent_Step (a\<lparr>memory := mem\<rparr>) step)"

text \<open>
  The tool and the responses of the code-block example, and the agent \<open>NewCodeAgent\<close> returns
  for one tool, a step budget and a mock model.
\<close>

definition add_tool :: Tool where
  "add_tool = MockTool ''add'' ''Adds two numbers'' (AInt 3) None"

definition add_block :: string where
  "add_block = ''```go\<newline>result = add(a=1, b=2)\<newline>```''"

definition unknown_block :: string where
  "unknown_block = ''```go\<newline>result = multiply(a=1, b=2)\<newline>```''"

text \<open>The block of the example after a fence that is not closed.\<close>

definition add_after_open_fence :: string where
  "add_after_open_fence = ''```\<newline>'' @ add_block"

text \<open>The block of the example after a block that calls \<open>add\<close> with other arguments.\<close>

definition add_after_other_call :: string where
  "add_after_other_call = ''```go\<newline>result = add(a=5, b=6)\<newline>```\<newline>'' @ add_block"

text \<open>A fenced call in JSON whose argument is a number too large for a \<open>float64\<close>.\<close>

definition out_of_range_call :: string where
  "out_of_range_call = ''```json\<newline>{\"args\": {\"a\": 1e999}}\<newline>```''"

definition mock_code_agent :: "Tool \<Rightarrow> int \<Rightarrow> string \<Rightarrow> CodeAgent" where
  "mock_code_agent tool budget response =
     \<lparr>tools = [tool], model = MockModel response None, memory = NewMemory, maxSteps = budget,
      systemPrompt = CodeAgent_systemPrompt, name = ''CodeAgent'',
      description = ''An agent specialized in generating and executing code'', stepper = None\<rparr>"

definition code_step_test :: "CodeAgent \<Rightarrow> string \<Rightarrow> (any \<times> error option) \<times> CodeAgent" where
  "code_step_test a task =
     (let (step, mem) = AddActionStep task [\<lparr>Role = RoleUser, Content = task, Name = []\<rparr>] (memory a)
      in CodeAgent_Step (a\<lparr>memory := mem\<rparr>) step)"

definition opened_code_agent :: "Tool \<Rightarrow> string \<Rightarrow> CodeAgent" where
  "opened_code_agent tool response =
     (mock_code_agent tool 20 response)
       \<lparr>memory := snd (AddActionStep ''test task''
                         [\<lparr>Role = RoleUser, Content = ''test task'', Name = []\<rparr>] NewMemory)\<rparr>"

text \<open>A \<open>BaseAgent\<close> whose stepper returns the same result at every step, and no error.\<close>

definition answering_agent :: "any \<Rightarrow> BaseAgent" where
  "answering_agent result =
     \<lparr>tools = [test_tool], model = MockModel [] None, memory = NewMemory, maxSteps = 1,
      systemPrompt = default_systemPrompt, name = ''BaseAgent'',
      description = ''A base agent implementation'',
      stepper = Some (\<lambda>step mem. ((result, None), mem))\<rparr>"

text \<open>
  Responses of the model: the tool call of the specification in its fenced block, the
  same with a sentence before the block, and a fenced block that holds no JSON.
\<close>

definition call_block :: string where
  "call_block = ''```json\<newline>{\"tool\": \"test_tool\", \"args\": {\"arg1\": \"value1\"}}\<newline>```''"

definition prefixed_call :: string where
  "prefixed_call = ''Sure.\<newline>'' @ call_block"

definition fenced_text :: string where
  "fenced_text = ''```\<newline>The answer is 42\<newline>```''"

subsection \<open>Function tools of the tests\<close>


definition int_type :: GoType where
  "int_type = \<lparr>type_Kind = K_Int, type_String = ''int'', type_Implements_error = False\<rparr>"

definition error_type :: GoType where
  "error_type = \<lparr>type_Kind = K_Interface, type_String = ''error'', type_Implements_error = True\<rparr>"







definition wrap_int :: "int \<Rightarrow> int" where
  "wrap_int i = (i + 2 ^ 63) mod 2 ^ 64 - 2 ^ 63"

definition add_fnType :: FuncType where
  "add_fnType = \<lparr>fn_In = [int_type, int_type], fn_Out = [int_type], fn_IsVariadic = False\<rparr>"

definition add_fn :: "any list \<Rightarrow> any list outcome" where
  "add_fn xs =
     (case xs of [AInt a, AInt b] \<Rightarrow> Returns [AInt (wrap_int (a + b))] | _ \<Rightarrow> Returns [AInt 0])"



definition check_fnType :: FuncType where
  "check_fnType = \<lparr>fn_In = [], fn_Out = [error_type], fn_IsVariadic = False\<rparr>"

definition check_fn :: "any list \<Rightarrow> any list outcome" where
  "check_fn xs = Returns [AError ''boom'']"






definition integer_property :: "nat \<Rightarrow> PropertyDef" where
  "integer_property i =
     \<lparr>pd_Type = ''integer'', pd_Description = ''Parameter '' @ fmt_d (int i) @ '' of type int'',
      pd_Enum = [], pd_Default = ANil\<rparr>"

definition add_function_tool :: FunctionTool where
  "add_function_tool =
     \<lparr>ft_name = ''add'', ft_description = ''Adds two numbers'', ft_fnType = add_fnType,
      ft_fn = add_fn,
      ft_schema =
        \<lparr>ts_Type = ''object'',
         ts_Properties = [(''arg0'', integer_property 0), (''arg1'', integer_property 1)],
         ts_Required = [''arg0'', ''arg1'']\<rparr>\<rparr>"


definition check_function_tool :: FunctionTool where
  "check_function_tool =
     \<lparr>ft_name = ''check'', ft_description = ''Checks the service'', ft_fnType = check_fnType,
      ft_fn = check_fn,
      ft_schema = \<lparr>ts_Type = ''object'', ts_Properties = [], ts_Required = []\<rparr>\<rparr>"



section \<open>Properties of the transcript\<close>

lemma foldl_append_concat:
  "foldl (\<lambda>acc x. acc @ f x) init xs = init @ concat (map f xs)"
  by (induction xs arbitrary: init) simp_all

lemma GetMessages_concat: "GetMessages m = concat (map Messages (Steps m))"
  by (simp add: GetMessages_def foldl_append_concat)

lemma GetToolCalls_concat: "GetToolCalls m = concat (map ToolCalls (Steps m))"
  by (simp add: GetToolCalls_def foldl_append_concat)

lemma Steps_heap_upd [simp]: "Steps (heap_upd a f m) = Steps m"
  by (simp add: heap_upd_def)

lemma curStep_heap_upd [simp]: "curStep (heap_upd a f m) = curStep m"
  by (simp add: heap_upd_def)

lemma Steps_AddToolCall [simp]: "Steps (snd (AddToolCall n a out e m)) = Steps m"
  by (simp add: AddToolCall_def Let_def split: option.splits)

lemma Steps_CompleteCurrentStep [simp]: "Steps (CompleteCurrentStep m) = Steps m"
  by (simp add: CompleteCurrentStep_def split: option.splits)

lemma curStep_CompleteCurrentStep [simp]: "curStep (CompleteCurrentStep m) = None"
  by (simp add: CompleteCurrentStep_def split: option.splits)

lemma Steps_addStep [simp]:
  "Steps (snd (addStep ty ms m)) = Steps m @ [\<lparr>Type = ty, Messages = ms, ToolCalls = []\<rparr>]"
  by (simp add: addStep_def Let_def)

lemma Steps_add_calls [simp]: "Steps (add_calls cs m) = Steps m"
  unfolding add_calls_def
  by (induction cs arbitrary: m) (simp_all add: split_def)

lemma Steps_open_step:
  "\<exists>ty. Steps (snd (open_step r m)) =
         Steps m @ [\<lparr>Type = ty, Messages = request_messages r, ToolCalls = []\<rparr>]"
  by (cases r)
     (simp_all add: AddSystemPromptStep_def AddTaskStep_def AddActionStep_def
        AddPlanningStep_def)

lemma GetMessages_open_close:
  "GetMessages (open_close rc m) = GetMessages m @ request_messages (fst rc)"
proof -
  obtain ty where
    "Steps (snd (open_step (fst rc) m)) =
       Steps m @ [\<lparr>Type = ty, Messages = request_messages (fst rc), ToolCalls = []\<rparr>]"
    using Steps_open_step by blast
  then show ?thesis
    by (simp add: open_close_def GetMessages_concat)
qed

lemma GetMessages_open_close_all:
  "GetMessages (open_close_all rcs m) =
     GetMessages m @ concat (map (request_messages \<circ> fst) rcs)"
  unfolding open_close_all_def
  by (induction rcs arbitrary: m) (simp_all add: GetMessages_open_close)

lemma GetToolCalls_open_close:
  "GetToolCalls (open_close rc m) = GetToolCalls m"
proof -
  obtain ty where
    "Steps (snd (open_step (fst rc) m)) =
       Steps m @ [\<lparr>Type = ty, Messages = request_messages (fst rc), ToolCalls = []\<rparr>]"
    using Steps_open_step by blast
  then show ?thesis
    by (simp add: open_close_def GetToolCalls_concat)
qed

lemma GetToolCalls_open_close_all:
  "GetToolCalls (open_close_all rcs m) = GetToolCalls m"
  unfolding open_close_all_def
  by (induction rcs arbitrary: m) (simp_all add: GetToolCalls_open_close)

lemma GetMessages_NewMemory: "GetMessages NewMemory = []"
  by (simp add: GetMessages_def NewMemory_def)

text \<open>
  C6.  On a fresh transcript, after any number of steps of any kinds have been opened,
  each with its own message list, and closed (with any tool calls recorded in between),
  \<open>GetMessages\<close> is the concatenation of the supplied message lists in the order the steps
  were opened, each list in its own order.
\<close>

theorem C6_GetMessages_concatenates_steps:
  "GetMessages (open_close_all rcs NewMemory) = concat (map (request_messages \<circ> fst) rcs)"
  by (simp add: GetMessages_open_close_all GetMessages_NewMemory)

section \<open>Properties of the control loop\<close>

lemma run_steps_continue:
  assumes "\<And>a s. P a \<Longrightarrow> fst (stepf a s) = (ANil, None) \<and> P (snd (stepf a s))"
    and "\<And>a f. P a \<Longrightarrow> P (a\<lparr>memory := f (memory a)\<rparr>)"
    and "P a"
  shows "fst (run_steps stepf task k a) = (ANil, None) \<and> P (snd (run_steps stepf task k a))"
  using assms(3)
proof (induction k arbitrary: a)
  case 0
  then show ?case by simp
next
  case (Suc k)
  let ?o = "a\<lparr>memory := snd (AddActionStep task (buildMessages a) (memory a))\<rparr>"
  let ?s = "fst (AddActionStep task (buildMessages a) (memory a))"
  have o: "P ?o"
    using assms(2)[OF Suc.prems, of "\<lambda>m. snd (AddActionStep task (buildMessages a) m)"] by simp
  have r: "fst (stepf ?o ?s) = (ANil, None)" and p: "P (snd (stepf ?o ?s))"
    using assms(1)[OF o] by auto
  have c: "P ((snd (stepf ?o ?s))\<lparr>memory := CompleteCurrentStep (memory (snd (stepf ?o ?s)))\<rparr>)"
    using assms(2)[OF p, of CompleteCurrentStep] by simp
  show ?case
    using Suc.IH[OF c] r by (simp add: Let_def split_def)
qed

text \<open>What \<open>Run\<close> reports: the loop's result, or the exhaustion failure when the loop left both
  \<open>finalAnswer\<close> and \<open>lastError\<close> nil.\<close>

lemma Run_with_reports:
  "fst (Run_with stepf a task) =
     (let a0 = a\<lparr>memory := NewMemory\<rparr>;
          a1 = a0\<lparr>memory := CompleteCurrentStep (snd (AddSystemPromptStep (systemPrompt a0)
                  [\<lparr>Role = RoleSystem, Content = systemPrompt a0, Name = []\<rparr>] (memory a0)))\<rparr>;
          a2 = a1\<lparr>memory := CompleteCurrentStep (snd (AddTaskStep task
                  [\<lparr>Role = RoleUser, Content = task, Name = []\<rparr>] (memory a1)))\<rparr>;
          r = run_steps stepf task (nat (maxSteps a2)) a2
      in if fst r = (ANil, None)
         then (ANil, Some (''agent reached maximum number of steps ('' @ fmt_d (maxSteps (snd r)) @
                           '') without finding an answer''))
         else fst r)"
  by (simp add: Run_with_def Let_def split_def prod_eq_iff)

text \<open>A step function that never answers and never fails exhausts the budget, and the failure
  names the budget the agent holds.\<close>

lemma Run_with_exhausted:
  assumes "\<And>a s. P a \<Longrightarrow> fst (stepf a s) = (ANil, None) \<and> P (snd (stepf a s))"
    and "\<And>a f. P a \<Longrightarrow> P (a\<lparr>memory := f (memory a)\<rparr>)"
    and "\<And>a. P a \<Longrightarrow> maxSteps a = n"
    and "P a"
  shows "fst (Run_with stepf a task) =
           (ANil, Some (''agent reached maximum number of steps ('' @ fmt_d n @
                        '') without finding an answer''))"
proof -
  define a2 where "a2 =
    a\<lparr>memory := CompleteCurrentStep (snd (AddTaskStep task [\<lparr>Role = RoleUser, Content = task, Name = []\<rparr>]
      (CompleteCurrentStep (snd (AddSystemPromptStep (systemPrompt a)
         [\<lparr>Role = RoleSystem, Content = systemPrompt a, Name = []\<rparr>] NewMemory)))))\<rparr>"
  have "P a2"
    unfolding a2_def
    using assms(2)[OF assms(4), of "\<lambda>m. CompleteCurrentStep (snd (AddTaskStep task
      [\<lparr>Role = RoleUser, Content = task, Name = []\<rparr>]
      (CompleteCurrentStep (snd (AddSystemPromptStep (systemPrompt a)
         [\<lparr>Role = RoleSystem, Content = systemPrompt a, Name = []\<rparr>] NewMemory)))))"]
    by simp
  then have r: "fst (run_steps stepf task (nat (maxSteps a2)) a2) = (ANil, None)"
    and p: "P (snd (run_steps stepf task (nat (maxSteps a2)) a2))"
    using run_steps_continue[of P stepf a2 task "nat (maxSteps a2)"] assms(1,2) by auto
  have m: "maxSteps (snd (run_steps stepf task (nat (maxSteps a2)) a2)) = n"
    using assms(3)[OF p] .
  show ?thesis
    using r m by (simp add: Run_with_reports a2_def Let_def)
qed

section \<open>Properties of the tool-calling step\<close>

lemma extractToolCall_call_block:
  "extractToolCall call_block = (''test_tool'', [(''arg1'', AString ''value1'')], None)"
  by code_simp

lemma Step_dispatch:
  assumes "model a = MockModel call_block None" and "tools a = [test_tool]"
  shows "fst (ToolCallingAgent_Step a s) = (ANil, None)"
  using assms
  by (simp add: ToolCallingAgent_Step_def MockModel_def extractToolCall_call_block
      executeToolCall_def findTool_def test_tool_def MockTool_def Let_def split_def)

lemma Step_keeps:
  "model (snd (ToolCallingAgent_Step a s)) = model a \<and>
   tools (snd (ToolCallingAgent_Step a s)) = tools a \<and>
   maxSteps (snd (ToolCallingAgent_Step a s)) = maxSteps a \<and>
   Steps (memory (snd (ToolCallingAgent_Step a s))) = Steps (memory a)"
  by (simp add: ToolCallingAgent_Step_def executeToolCall_def append_message_def Let_def split_def
      split: option.splits sum.splits)

lemma Step_cases:
  assumes "GenerateWithTools (model a) (step_Messages step (memory a)) (buildToolsSchema a) =
             (response, None)"
  shows "fst (ToolCallingAgent_Step a step) =
     (case extractToolCall response of
        (toolName, arguments, Some e) \<Rightarrow> (ANil, Some (''failed to extract tool call: '' @ e))
      | (toolName, arguments, None) \<Rightarrow>
          if toolName = [] then (AString response, None)
          else fst (ToolCallingAgent_Step a step))"
  using assms
  by (simp add: ToolCallingAgent_Step_def Let_def split_def split: option.splits)

lemma fmt_d_20: "fmt_d 20 = ''20''"
  by code_simp

text \<open>What \<open>extractJSON\<close> takes from a response without a fence, and from a response that
  starts with a \<open>json\<close> fence.\<close>

lemma HasPrefix_append: "HasPrefix s (p @ q) \<Longrightarrow> HasPrefix s p"
  by (induction s p rule: HasPrefix.induct) auto

lemma HasPrefix_same: "HasPrefix (p @ s) p"
  by (induction p) auto

lemma index_from_longer:
  "index_from i s p = -1 \<Longrightarrow> q \<noteq> [] \<Longrightarrow> index_from i s (p @ q) = -1"
proof (induction s arbitrary: i)
  case Nil
  then show ?case by simp
next
  case (Cons c cs)
  then show ?case
    using HasPrefix_append[of "c # cs" p q] by (auto split: if_splits)
qed

lemma index_from_skip:
  "\<forall>c \<in> set pre. c \<noteq> x \<Longrightarrow> index_from i (pre @ s) (x # p) = index_from (i + length pre) s (x # p)"
  by (induction pre arbitrary: i) auto

lemma index_from_here: "HasPrefix s p \<Longrightarrow> index_from i s p = int i"
  by (cases s; cases p) auto

lemma Index_skip:
  assumes "x \<notin> set pre"
  shows "strings_Index (pre @ (x # p) @ s) (x # p) = int (length pre)"
proof -
  have "index_from 0 (pre @ (x # p) @ s) (x # p) = index_from (0 + length pre) ((x # p) @ s) (x # p)"
    using assms by (intro index_from_skip) auto
  also have "\<dots> = int (length pre)"
    using HasPrefix_same[of "x # p" s] by (simp add: index_from_here del: HasPrefix.simps)
  finally show ?thesis
    by (simp add: strings_Index_def)
qed

lemma extractJSON_no_fence:
  assumes "strings_Index response ''```'' = -1"
  shows "extractJSON response = []"
proof -
  have "strings_Index response (''```'' @ ''json'') = -1"
    using assms unfolding strings_Index_def by (intro index_from_longer) auto
  then show ?thesis
    using assms by (simp add: extractJSON_def)
qed

lemma extractJSON_steps:
  assumes "strings_Index s ''```json'' = int i0"
    and "strings_Index (drop i0 s) ''\<newline>'' = int n"
    and "strings_Index (drop (Suc n) s) ''```'' = int m"
  shows "extractJSON s = strings_TrimSpace (take m (drop (Suc n) s))"
proof -
  have "nat (int n + 1) = Suc n"
    by simp
  then show ?thesis
    using assms by (simp add: extractJSON_def Let_def)
qed

lemma extractJSON_json_fence:
  assumes "CHR 0x0A \<notin> set l" and "CHR 0x60 \<notin> set body"
  shows "extractJSON (''```json'' @ l @ ''\<newline>'' @ body @ ''```'' @ rest) = strings_TrimSpace body"
proof -
  define s where "s = ''```json'' @ l @ ''\<newline>'' @ body @ ''```'' @ rest"
  have 1: "strings_Index s ''```json'' = int 0"
    using HasPrefix_same[of "''```json''" "l @ ''\<newline>'' @ body @ ''```'' @ rest"]
    by (simp add: strings_Index_def s_def del: HasPrefix.simps)
  have "CHR 0x0A \<notin> set (''```json'' @ l)"
    using assms(1) by simp
  from Index_skip[OF this, of "[]" "body @ ''```'' @ rest"]
  have 2: "strings_Index (drop 0 s) ''\<newline>'' = int (7 + length l)"
    by (simp add: s_def)
  have 3: "drop (Suc (7 + length l)) s = body @ ''```'' @ rest"
    by (simp add: s_def eval_nat_numeral)
  have 4: "strings_Index (drop (Suc (7 + length l)) s) ''```'' = int (length body)"
    unfolding 3 using Index_skip[OF assms(2), of "''``''" rest] by simp
  have "extractJSON s = strings_TrimSpace (take (length body) (body @ ''```'' @ rest))"
    using extractJSON_steps[OF 1 2 4] unfolding 3 .
  then show ?thesis
    by (simp add: s_def)
qed

text \<open>A first step that ends with an answer or with a failure to extract ends the run.\<close>

lemma run_steps_first:
  assumes "fst (stepf (snd (open_action a task)) (fst (open_action a task))) = (r, e)"
    and "e \<noteq> None \<or> r \<noteq> ANil"
  shows "fst (run_steps stepf task (Suc k) a) = (if e \<noteq> None then (ANil, e) else (r, None))"
  using assms by (auto simp: open_action_def Let_def split_def)

lemma Run_first_step:
  assumes gen: "\<forall>ms sch. GenerateWithTools (model a) ms sch = (response, None)"
    and budget: "0 < maxSteps a"
    and call: "extractToolCall response = (nm, arguments, err)"
    and final: "err \<noteq> None \<or> nm = []"
  shows "fst (ToolCallingAgent_Run a task) =
           (case err of
              Some e \<Rightarrow> (ANil, Some (''failed to extract tool call: '' @ e))
            | None \<Rightarrow> (AString response, None))"
proof -
  define a2 where "a2 =
    a\<lparr>memory := CompleteCurrentStep (snd (AddTaskStep task [\<lparr>Role = RoleUser, Content = task, Name = []\<rparr>]
      (CompleteCurrentStep (snd (AddSystemPromptStep (systemPrompt a)
         [\<lparr>Role = RoleSystem, Content = systemPrompt a, Name = []\<rparr>] NewMemory)))))\<rparr>"
  have m: "model (snd (open_action a2 task)) = model a"
    by (simp add: open_action_def a2_def)
  have "fst (ToolCallingAgent_Step (snd (open_action a2 task)) (fst (open_action a2 task))) =
          (case err of
             Some e \<Rightarrow> (ANil, Some (''failed to extract tool call: '' @ e))
           | None \<Rightarrow> (AString response, None))"
    using Step_cases[of "snd (open_action a2 task)" "fst (open_action a2 task)" response]
      gen m call final
    by (auto split: option.splits)
  then have s: "fst (ToolCallingAgent_Step (snd (open_action a2 task)) (fst (open_action a2 task))) =
          (case err of Some e \<Rightarrow> ANil | None \<Rightarrow> AString response,
           case err of Some e \<Rightarrow> Some (''failed to extract tool call: '' @ e) | None \<Rightarrow> None)"
    by (simp split: option.splits)
  obtain k where k: "nat (maxSteps a2) = Suc k"
    using budget by (cases "nat (maxSteps a2)") (auto simp: a2_def)
  have r: "fst (run_steps ToolCallingAgent_Step task (nat (maxSteps a2)) a2) =
          (case err of
             Some e \<Rightarrow> (ANil, Some (''failed to extract tool call: '' @ e))
           | None \<Rightarrow> (AString response, None))"
    unfolding k using run_steps_first[where stepf = ToolCallingAgent_Step and a = a2 and task = task and k = k, OF s]
    by (auto split: option.splits)
  show ?thesis
    using r
    by (simp add: ToolCallingAgent_Run_def Run_with_reports Let_def a2_def split: option.splits)
qed

lemma extractJSON_out_of_range:
  "extractJSON ''```json\<newline>{\"args\": {\"a\": 1e999}}\<newline>```'' = ''{\"args\": {\"a\": 1e999}}''"
  by code_simp

lemma decode_out_of_range:
  "json_Unmarshal_call ''{\"args\": {\"a\": 1e999}}'' = Inl json_UnmarshalTypeError"
  by code_simp

lemma generate_mock:
  "GenerateWithTools (model (mock_agent t r)) ms sch = (r, None)"
  by (simp add: mock_agent_def MockModel_def)

lemma maxSteps_mock: "maxSteps (mock_agent t r) = 20"
  by (simp add: mock_agent_def)

lemma extractJSON_plain: "extractJSON ''This is a final answer'' = []"
  by code_simp

lemma extractJSON_fenced: "extractJSON fenced_text = ''The answer is 42''"
  by code_simp

lemma decode_fenced: "json_Unmarshal_call ''The answer is 42'' = Inl json_SyntaxError"
  by code_simp

lemma extractJSON_empty_object: "extractJSON ''```json\<newline>{}\<newline>```'' = ''{}''"
  by code_simp

lemma decode_empty_object: "json_Unmarshal_call ''{}'' = Inr \<lparr>call_Tool = [], call_Args = []\<rparr>"
  by code_simp

lemma generate_opened:
  "GenerateWithTools (model (opened_agent t r)) ms sch = (r, None)"
  by (simp add: opened_agent_def mock_agent_def MockModel_def)

lemma answering_step:
  "BaseAgent_call_step (snd (open_action (answering_agent r) task))
       (fst (open_action (answering_agent r) task)) =
     ((r, None), snd (open_action (answering_agent r) task))"
  by (simp add: BaseAgent_call_step_def open_action_def answering_agent_def)

section \<open>Properties of the code agent's step\<close>

lemma extractCodeBlocks_skip:
  "CHR 0x60 \<notin> set pre \<Longrightarrow> extractCodeBlocks (pre @ s) = extractCodeBlocks s"
  by (induction pre) (auto simp: match_block_def)

lemma match_add_block:
  "match_block (add_block @ suffix) = Some (''result = add(a=1, b=2)\<newline>'', 32)"
  by (simp add: match_block_def add_block_def is_word_def strings_Index_def Let_def)

lemma first_block_is_add:
  assumes "CHR 0x60 \<notin> set pre"
  shows "extractCodeBlocks (pre @ add_block @ suffix) =
           ''result = add(a=1, b=2)\<newline>'' # extractCodeBlocks suffix"
proof -
  have "extractCodeBlocks (add_block @ suffix) =
          ''result = add(a=1, b=2)\<newline>'' # extractCodeBlocks suffix"
    using match_add_block[of suffix] by (simp add: add_block_def)
  then show ?thesis
    using extractCodeBlocks_skip[OF assms] by simp
qed

lemma find_call_add: "find_call ''result = add(a=1, b=2)\<newline>'' = Some (''add'', ''a=1, b=2'')"
  by code_simp

lemma find_args_add:
  "foldl (\<lambda>arguments g. AList.update (fst g) (arg_value g) arguments) [] (find_args ''a=1, b=2'') =
     [(''a'', AInt 1), (''b'', AInt 2)]"
  by code_simp

lemma list_ex_find: "find P xs = Some x \<Longrightarrow> list_ex P xs"
  by (induction xs) (auto split: if_splits)

lemma call_of_add_block:
  assumes "find (\<lambda>tool. Tool_Name tool = ''add'') (tools a) = Some t"
  shows "extractToolCallFromCode a ''result = add(a=1, b=2)\<newline>'' =
           (''add'', [(''a'', AInt 1), (''b'', AInt 2)], None)"
  using list_ex_find[OF assms]
  by (simp add: extractToolCallFromCode_def find_call_add find_args_add
      del: find_call.simps find_args.simps)

lemma code_blocks_loop_none:
  assumes "\<forall>block \<in> set blocks. fst (extractToolCallFromCode a block) = []"
  shows "code_blocks_loop a step blocks = None"
  using assms
proof (induction blocks)
  case Nil
  then show ?case by simp
next
  case (Cons b bs)
  have "snd (snd (extractToolCallFromCode a b)) = None"
    by (simp add: extractToolCallFromCode_def split: option.splits prod.splits)
  then show ?case
    using Cons by (cases "extractToolCallFromCode a b") auto
qed

lemma extractToolCallFromCode_memory [simp]:
  "extractToolCallFromCode (a\<lparr>memory := m\<rparr>) code = extractToolCallFromCode a code"
  by (simp add: extractToolCallFromCode_def split: option.splits)

lemma executeAndAddResToMem_result:
  assumes "find (\<lambda>tool. Tool_Name tool = nm) (tools a) = Some t"
  shows "fst (executeAndAddResToMem a step nm arguments) =
           (case Tool_Execute t arguments of
              (r, None) \<Rightarrow> (ANil, None)
            | (r, Some e) \<Rightarrow> (ANil, Some (''failed to execute tool call: '' @ e)))"
  using assms
  by (simp add: executeAndAddResToMem_def executeToolCall_def findTool_def Let_def split_def
      split: option.splits)

lemma CodeAgent_Step_first_block:
  assumes "Generate (model a) (step_Messages step (memory a)) = (response, None)"
    and "extractCodeBlocks response = b # bs"
    and "extractToolCallFromCode a b = (nm, arguments, None)"
    and "nm \<noteq> []"
  shows "CodeAgent_Step a step =
           executeAndAddResToMem
             (a\<lparr>memory := append_message step
                  \<lparr>Role = RoleAssistant, Content = response, Name = []\<rparr> (memory a)\<rparr>)
             step nm arguments"
  using assms by (simp add: CodeAgent_Step_def Let_def)

lemma CodeAgent_Step_fallback:
  assumes "Generate (model a) (step_Messages step (memory a)) = (response, None)"
    and "\<forall>block \<in> set (extractCodeBlocks response). fst (extractToolCallFromCode a block) = []"
  shows "fst (CodeAgent_Step a step) =
           (case extractToolCall response of
              (toolName, arguments, Some e) \<Rightarrow> (ANil, Some (''failed to extract tool call: '' @ e))
            | (toolName, arguments, None) \<Rightarrow>
                if toolName = [] then (AString response, None)
                else fst (executeAndAddResToMem
                       (a\<lparr>memory := append_message step
                            \<lparr>Role = RoleAssistant, Content = response, Name = []\<rparr> (memory a)\<rparr>)
                       step toolName arguments))"
proof -
  have "code_blocks_loop
          (a\<lparr>memory := append_message step
               \<lparr>Role = RoleAssistant, Content = response, Name = []\<rparr> (memory a)\<rparr>)
          step (extractCodeBlocks response) = None"
    using assms(2) by (intro code_blocks_loop_none) simp
  then show ?thesis
    using assms(1) by (simp add: CodeAgent_Step_def Let_def split_def split: option.splits)
qed

lemma generate_opened_code:
  "Generate (model (opened_code_agent t r)) ms = (r, None)"
  by (simp add: opened_code_agent_def mock_code_agent_def MockModel_def)

lemma tools_opened_code: "tools (opened_code_agent t r) = [t]"
  by (simp add: opened_code_agent_def mock_code_agent_def)

lemma add_tool_facts:
  "Tool_Name add_tool = ''add''"
  "Tool_Execute add_tool arguments = (AInt 3, None)"
  by (simp_all add: add_tool_def MockTool_def)

lemma blocks_plain: "extractCodeBlocks ''This is a final answer'' = []"
  by code_simp

lemma extractToolCall_plain: "extractToolCall ''This is a final answer'' = ([], [], None)"
  by code_simp

lemma blocks_unknown: "extractCodeBlocks unknown_block = [''result = multiply(a=1, b=2)\<newline>'']"
  by code_simp

lemma find_call_unknown:
  "find_call ''result = multiply(a=1, b=2)\<newline>'' = Some (''multiply'', ''a=1, b=2'')"
  by code_simp

lemma extractToolCall_unknown:
  "extractToolCall unknown_block = ([], [], Some (''failed to parse tool call: '' @ json_SyntaxError))"
  by code_simp

lemma extractJSON_unknown: "extractJSON unknown_block = ''result = multiply(a=1, b=2)''"
  by code_simp

lemma decode_unknown:
  "json_Unmarshal_call ''result = multiply(a=1, b=2)'' = Inl json_SyntaxError"
  by code_simp

lemma blocks_out_of_range:
  "extractCodeBlocks out_of_range_call = [''{\"args\": {\"a\": 1e999}}\<newline>'']"
  by code_simp

lemma find_call_out_of_range: "find_call ''{\"args\": {\"a\": 1e999}}\<newline>'' = None"
  by code_simp

lemma extractJSON_out_of_range_call:
  "extractJSON out_of_range_call = ''{\"args\": {\"a\": 1e999}}''"
  by code_simp

lemma code_blocks_loop_skip:
  assumes "\<forall>block \<in> set blocks. fst (extractToolCallFromCode a block) = []"
  shows "code_blocks_loop a step (blocks @ rest) = code_blocks_loop a step rest"
  using assms
proof (induction blocks)
  case Nil
  then show ?case by simp
next
  case (Cons b bs)
  have "snd (snd (extractToolCallFromCode a b)) = None"
    by (simp add: extractToolCallFromCode_def split: option.splits prod.splits)
  then show ?case
    using Cons by (cases "extractToolCallFromCode a b") auto
qed

lemma CodeAgent_Step_block:
  assumes "Generate (model a) (step_Messages step (memory a)) = (response, None)"
    and "extractCodeBlocks response = bs1 @ b # bs2"
    and "\<forall>block \<in> set bs1. fst (extractToolCallFromCode a block) = []"
    and "extractToolCallFromCode a b = (nm, arguments, None)"
    and "nm \<noteq> []"
  shows "CodeAgent_Step a step =
           executeAndAddResToMem
             (a\<lparr>memory := append_message step
                  \<lparr>Role = RoleAssistant, Content = response, Name = []\<rparr> (memory a)\<rparr>)
             step nm arguments"
proof -
  let ?a1 = "a\<lparr>memory := append_message step
                  \<lparr>Role = RoleAssistant, Content = response, Name = []\<rparr> (memory a)\<rparr>"
  have "code_blocks_loop ?a1 step (bs1 @ b # bs2) = code_blocks_loop ?a1 step (b # bs2)"
    using assms(3) by (intro code_blocks_loop_skip) simp
  also have "\<dots> = Some (executeAndAddResToMem ?a1 step nm arguments)"
    using assms(4,5) by simp
  finally show ?thesis
    using assms(1,2) by (simp add: CodeAgent_Step_def Let_def)
qed

section \<open>The claims about the agents\<close>

text \<open>
  C1.  A run in which \<open>test_tool\<close> is dispatched and its \<open>Execute\<close> fails: the run aborts
  with that failure, and \<open>AddToolCall\<close> has put the record, with the failure's text, into
  the action step that was open.  That step is the object \<open>curStep\<close> pointed to; the
  transcript's \<open>Steps\<close> holds the copy made when the step was opened, so after the step is
  closed neither \<open>GetToolCalls\<close> nor the steps of \<open>GetSteps\<close> show the record.
\<close>

theorem C1_recorded_call_not_in_views:
  "fst (ToolCallingAgent_Run (mock_agent failing_tool call_block) ''test task'') =
     (ANil, Some ''failed to execute tool call: boom'') \<and>
   map ToolCalls
     (heap (memory (snd (ToolCallingAgent_Run (mock_agent failing_tool call_block) ''test task'')))) =
     [[], [],
      [\<lparr>tc_Name = ''test_tool'', tc_Arguments = [(''arg1'', AString ''value1'')],
        tc_Output = ANil, tc_Error = ''boom''\<rparr>]] \<and>
   curStep (memory (snd (ToolCallingAgent_Run (mock_agent failing_tool call_block) ''test task''))) =
     None \<and>
   GetToolCalls (memory (snd (ToolCallingAgent_Run (mock_agent failing_tool call_block) ''test task''))) =
     [] \<and>
   map ToolCalls
     (GetSteps (memory (snd (ToolCallingAgent_Run (mock_agent failing_tool call_block) ''test task'')))) =
     [[], [], []]"
  by code_simp

text \<open>
  C2.  \<open>NewToolCallingAgent\<close> with \<open>WithMaxSteps(1)\<close> returns an agent whose budget is still 20:
  with a model that asks for \<open>test_tool\<close> at every step the run goes through 20 iterations
  and the failure names 20.  \<open>NewCodeAgent\<close> with \<open>WithMaxSteps(1)\<close> returns an agent whose
  budget is 1, but its \<open>Run\<close> is \<open>BaseAgent.Run\<close> and no stepper is set, so the first
  iteration calls \<open>BaseAgent.Step\<close> and the run ends with its failure.
\<close>

theorem C2_step_budget_not_applied:
  "NewToolCallingAgent [test_tool] (Some (MockModel call_block None)) [WithMaxSteps 1] =
     Inr (mock_agent test_tool call_block) \<and>
   maxSteps (mock_agent test_tool call_block) = 20 \<and>
   fst (ToolCallingAgent_Run (mock_agent test_tool call_block) ''test task'') =
     (ANil, Some ''agent reached maximum number of steps (20) without finding an answer'') \<and>
   NewCodeAgent [test_tool] (Some (MockModel call_block None)) [WithMaxSteps 1] =
     Inr (mock_code_agent test_tool 1 call_block) \<and>
   maxSteps (mock_code_agent test_tool 1 call_block) = 1 \<and>
   fst (CodeAgent_Run (mock_code_agent test_tool 1 call_block) ''test task'') =
     (ANil, Some ''Step method must be implemented by derived agents'')"
proof -
  have 1: "NewToolCallingAgent [test_tool] (Some (MockModel call_block None)) [WithMaxSteps 1] =
     Inr (mock_agent test_tool call_block)"
    by (simp add: NewToolCallingAgent_def mock_agent_def WithMaxSteps_def)
  have 2: "fst (ToolCallingAgent_Run (mock_agent test_tool call_block) ''test task'') =
     (ANil, Some ''agent reached maximum number of steps (20) without finding an answer'')"
    unfolding ToolCallingAgent_Run_def
    using Run_with_exhausted
        [of "\<lambda>a. model a = MockModel call_block None \<and> tools a = [test_tool] \<and> maxSteps a = 20"
          ToolCallingAgent_Step 20 "mock_agent test_tool call_block" "''test task''"]
    by (simp add: Step_dispatch Step_keeps fmt_d_20 mock_agent_def)
  have 3: "NewCodeAgent [test_tool] (Some (MockModel call_block None)) [WithMaxSteps 1] =
     Inr (mock_code_agent test_tool 1 call_block)"
    by (simp add: NewCodeAgent_def NewBaseAgent_def mock_code_agent_def WithMaxSteps_def Let_def)
  have 4: "fst (CodeAgent_Run (mock_code_agent test_tool 1 call_block) ''test task'') =
     (ANil, Some ''Step method must be implemented by derived agents'')"
    by (simp add: CodeAgent_Run_def BaseAgent_Run_def Run_with_def BaseAgent_call_step_def
        BaseAgent_Step_def mock_code_agent_def Let_def split_def)
  show ?thesis
    using 1 2 3 4 by (simp add: mock_agent_def mock_code_agent_def)
qed

text \<open>
  C3, as amended.  In a step of the tool-calling agent whose model call returns a response:
  when \<open>extractJSON\<close> takes no text from the response, or takes a text that decodes with
  an empty \<open>tool\<close>, the step returns the response as the final answer and no failure; when
  it takes a text that does not decode, the step fails with the parse failure.  When the
  model gives that response to every request and the budget is at least one step, the run
  ends at its first step, with the response as the answer in the first case and with the
  parse failure in the second.  \<open>extractJSON\<close> takes no text from a response without a
  fence; from a response that starts with a \<open>json\<close> fence it takes the text between the
  end of the fence's line and the closing fence, without the white space around it.
\<close>

theorem C3_final_answer_or_parse_failure:
  assumes "GenerateWithTools (model a) (step_Messages step (memory a)) (buildToolsSchema a) =
             (response, None)"
  shows "(strings_Index response ''```'' = -1 \<longrightarrow> extractJSON response = []) \<and>
         (\<forall>l body rest.
            response = ''```json'' @ l @ ''\<newline>'' @ body @ ''```'' @ rest \<and>
            CHR 0x0A \<notin> set l \<and> CHR 0x60 \<notin> set body \<longrightarrow>
              extractJSON response = strings_TrimSpace body) \<and>
         (extractJSON response = [] \<longrightarrow>
            fst (ToolCallingAgent_Step a step) = (AString response, None)) \<and>
         (\<forall>c. extractJSON response \<noteq> [] \<and>
               json_Unmarshal_call (extractJSON response) = Inr c \<and> call_Tool c = [] \<longrightarrow>
            fst (ToolCallingAgent_Step a step) = (AString response, None)) \<and>
         (\<forall>e. extractJSON response \<noteq> [] \<and>
               json_Unmarshal_call (extractJSON response) = Inl e \<longrightarrow>
            fst (ToolCallingAgent_Step a step) =
              (ANil, Some (''failed to extract tool call: failed to parse tool call: '' @ e))) \<and>
         ((\<forall>ms sch. GenerateWithTools (model a) ms sch = (response, None)) \<and> 0 < maxSteps a \<longrightarrow>
            (extractJSON response = [] \<or>
             (\<exists>c. json_Unmarshal_call (extractJSON response) = Inr c \<and> call_Tool c = []) \<longrightarrow>
               fst (ToolCallingAgent_Run a task) = (AString response, None)) \<and>
            (\<forall>e. extractJSON response \<noteq> [] \<and>
                  json_Unmarshal_call (extractJSON response) = Inl e \<longrightarrow>
               fst (ToolCallingAgent_Run a task) =
                 (ANil, Some (''failed to extract tool call: failed to parse tool call: '' @ e))))"
proof (intro conjI allI impI)
  assume "strings_Index response ''```'' = -1"
  then show "extractJSON response = []"
    by (rule extractJSON_no_fence)
next
  fix l body rest
  assume "response = ''```json'' @ l @ ''\<newline>'' @ body @ ''```'' @ rest \<and>
          CHR 0x0A \<notin> set l \<and> CHR 0x60 \<notin> set body"
  then show "extractJSON response = strings_TrimSpace body"
    using extractJSON_json_fence[of l body rest] by blast
next
  assume "extractJSON response = []"
  then show "fst (ToolCallingAgent_Step a step) = (AString response, None)"
    using Step_cases[OF assms] by (simp add: extractToolCall_def)
next
  fix c
  assume "extractJSON response \<noteq> [] \<and>
          json_Unmarshal_call (extractJSON response) = Inr c \<and> call_Tool c = []"
  then show "fst (ToolCallingAgent_Step a step) = (AString response, None)"
    using Step_cases[OF assms] by (simp add: extractToolCall_def)
next
  fix e
  assume "extractJSON response \<noteq> [] \<and> json_Unmarshal_call (extractJSON response) = Inl e"
  then show "fst (ToolCallingAgent_Step a step) =
      (ANil, Some (''failed to extract tool call: failed to parse tool call: '' @ e))"
    using Step_cases[OF assms] by (simp add: extractToolCall_def)
next
  assume run: "(\<forall>ms sch. GenerateWithTools (model a) ms sch = (response, None)) \<and> 0 < maxSteps a"
    and "extractJSON response = [] \<or>
         (\<exists>c. json_Unmarshal_call (extractJSON response) = Inr c \<and> call_Tool c = [])"
  then have "extractToolCall response = ([], [], None)"
    by (auto simp: extractToolCall_def Let_def)
  from Run_first_step[OF _ _ this, of a task] run
  show "fst (ToolCallingAgent_Run a task) = (AString response, None)"
    by simp
next
  fix e
  assume run: "(\<forall>ms sch. GenerateWithTools (model a) ms sch = (response, None)) \<and> 0 < maxSteps a"
    and "extractJSON response \<noteq> [] \<and> json_Unmarshal_call (extractJSON response) = Inl e"
  then have "extractToolCall response = ([], [], Some (''failed to parse tool call: '' @ e))"
    by (simp add: extractToolCall_def)
  from Run_first_step[OF _ _ this, of a task] run
  show "fst (ToolCallingAgent_Run a task) =
      (ANil, Some (''failed to extract tool call: failed to parse tool call: '' @ e))"
    by simp
qed

text \<open>
  A response without a fence is the answer of the step and of the run.  A fenced empty
  object decodes with an empty \<open>tool\<close>: the response is the answer.  A fenced call whose
  argument is the number \<open>1e999\<close>, too large for a \<open>float64\<close>, does not decode: the step and
  the run fail.
\<close>

theorem C3_witness:
  "strings_Index ''This is a final answer'' ''```'' = -1 \<and>
   extractJSON ''This is a final answer'' = [] \<and>
   fst (ToolCallingAgent_Step (mock_agent test_tool ''This is a final answer'') 0) =
     (AString ''This is a final answer'', None) \<and>
   fst (ToolCallingAgent_Run (mock_agent test_tool ''This is a final answer'') ''test task'') =
     (AString ''This is a final answer'', None) \<and>
   extractJSON ''```json\<newline>{}\<newline>```'' = strings_TrimSpace ''{}\<newline>'' \<and>
   json_Unmarshal_call (extractJSON ''```json\<newline>{}\<newline>```'') =
     Inr \<lparr>call_Tool = [], call_Args = []\<rparr> \<and>
   fst (ToolCallingAgent_Step (mock_agent test_tool ''```json\<newline>{}\<newline>```'') 0) =
     (AString ''```json\<newline>{}\<newline>```'', None) \<and>
   fst (ToolCallingAgent_Run (mock_agent test_tool ''```json\<newline>{}\<newline>```'') ''test task'') =
     (AString ''```json\<newline>{}\<newline>```'', None) \<and>
   json_Unmarshal_call (extractJSON ''```json\<newline>{\"args\": {\"a\": 1e999}}\<newline>```'') =
     Inl json_UnmarshalTypeError \<and>
   fst (ToolCallingAgent_Step
          (mock_agent test_tool ''```json\<newline>{\"args\": {\"a\": 1e999}}\<newline>```'') 0) =
     (ANil, Some (''failed to extract tool call: failed to parse tool call: '' @
                  json_UnmarshalTypeError)) \<and>
   fst (ToolCallingAgent_Run
          (mock_agent test_tool ''```json\<newline>{\"args\": {\"a\": 1e999}}\<newline>```'') ''test task'') =
     (ANil, Some (''failed to extract tool call: failed to parse tool call: '' @
                  json_UnmarshalTypeError))"
proof -
  let ?plain = "''This is a final answer''"
  let ?empty = "''```json\<newline>{}\<newline>```''"
  let ?range = "''```json\<newline>{\"args\": {\"a\": 1e999}}\<newline>```''"
  note plain = C3_final_answer_or_parse_failure
      [where a = "mock_agent test_tool ?plain" and step = 0 and task = "''test task''",
       OF generate_mock]
  note empty = C3_final_answer_or_parse_failure
      [where a = "mock_agent test_tool ?empty" and step = 0 and task = "''test task''",
       OF generate_mock]
  note range = C3_final_answer_or_parse_failure
      [where a = "mock_agent test_tool ?range" and step = 0 and task = "''test task''",
       OF generate_mock]
  have g: "(\<forall>ms sch. GenerateWithTools (model (mock_agent test_tool r)) ms sch = (r, None)) \<and>
           0 < maxSteps (mock_agent test_tool r)" for r
    by (simp add: generate_mock maxSteps_mock)
  have i: "strings_Index ?plain ''```'' = -1"
    by code_simp
  have p1: "extractJSON ?plain = []"
    using plain[THEN conjunct1] i by blast
  have p2: "fst (ToolCallingAgent_Step (mock_agent test_tool ?plain) 0) = (AString ?plain, None)"
    using plain[THEN conjunct2, THEN conjunct2, THEN conjunct1] p1 by blast
  have p3: "fst (ToolCallingAgent_Run (mock_agent test_tool ?plain) ''test task'') =
      (AString ?plain, None)"
    using plain[THEN conjunct2, THEN conjunct2, THEN conjunct2, THEN conjunct2, THEN conjunct2,
        THEN mp, OF g, THEN conjunct1] p1 by blast
  have "?empty = ''```json'' @ [] @ ''\<newline>'' @ ''{}\<newline>'' @ ''```'' @ [] \<and>
        CHR 0x0A \<notin> set [] \<and> CHR 0x60 \<notin> set ''{}\<newline>''"
    by simp
  then have e1: "extractJSON ?empty = strings_TrimSpace ''{}\<newline>''"
    using empty[THEN conjunct2, THEN conjunct1] by blast
  have e0: "extractJSON ?empty \<noteq> []"
    by (simp only: extractJSON_empty_object) simp
  have e2: "json_Unmarshal_call (extractJSON ?empty) = Inr \<lparr>call_Tool = [], call_Args = []\<rparr>"
    by (simp only: extractJSON_empty_object decode_empty_object)
  have e3: "fst (ToolCallingAgent_Step (mock_agent test_tool ?empty) 0) = (AString ?empty, None)"
    using empty[THEN conjunct2, THEN conjunct2, THEN conjunct2, THEN conjunct1, rule_format,
        of "\<lparr>call_Tool = [], call_Args = []\<rparr>"] e0 e2
    by simp
  have "\<exists>c. json_Unmarshal_call (extractJSON ?empty) = Inr c \<and> call_Tool c = []"
    using e2 by simp
  then have e4: "fst (ToolCallingAgent_Run (mock_agent test_tool ?empty) ''test task'') =
      (AString ?empty, None)"
    using empty[THEN conjunct2, THEN conjunct2, THEN conjunct2, THEN conjunct2, THEN conjunct2,
        THEN mp, OF g, THEN conjunct1] by blast
  have r0: "extractJSON ?range \<noteq> []"
    by (simp only: extractJSON_out_of_range) simp
  have r1: "json_Unmarshal_call (extractJSON ?range) = Inl json_UnmarshalTypeError"
    by (simp only: extractJSON_out_of_range decode_out_of_range)
  have r2: "fst (ToolCallingAgent_Step (mock_agent test_tool ?range) 0) =
      (ANil, Some (''failed to extract tool call: failed to parse tool call: '' @
                   json_UnmarshalTypeError))"
    using range[THEN conjunct2, THEN conjunct2, THEN conjunct2, THEN conjunct2, THEN conjunct1]
      r0 r1 by blast
  have r3: "fst (ToolCallingAgent_Run (mock_agent test_tool ?range) ''test task'') =
      (ANil, Some (''failed to extract tool call: failed to parse tool call: '' @
                   json_UnmarshalTypeError))"
    using range[THEN conjunct2, THEN conjunct2, THEN conjunct2, THEN conjunct2, THEN conjunct2,
        THEN mp, OF g, THEN conjunct2] r0 r1 by blast
  show ?thesis
    using i p1 p2 p3 e1 e2 e3 e4 r1 r2 r3 by blast
qed

text \<open>
  The response \<open>fenced_text\<close> has one fenced block, which is no JSON: the step, and the run,
  end with the parse failure and not with the response as the answer.
\<close>

theorem C3_counterexample:
  "parse_json (extractJSON fenced_text) = None \<and>
   fst (step_test (mock_agent test_tool fenced_text) ''test task'') =
     (ANil, Some (''failed to extract tool call: failed to parse tool call: '' @ json_SyntaxError)) \<and>
   fst (ToolCallingAgent_Run (mock_agent test_tool fenced_text) ''test task'') =
     (ANil, Some (''failed to extract tool call: failed to parse tool call: '' @ json_SyntaxError))"
  by code_simp

text \<open>
  C4.  With a sentence before the fenced block, \<open>extractJSON\<close> returns text that starts
  inside the opening fence, the decoding fails and the step ends with the parse failure
  without a dispatch.  With the block at the start of the response the step extracts
  \<open>test_tool\<close> and its arguments, dispatches the tool, records the call in the open step
  and returns no answer.
\<close>

theorem C4_text_before_block_breaks_extraction:
  "extractJSON prefixed_call =
     ''`json\<newline>{\"tool\": \"test_tool\", \"args\": {\"arg1\": \"value1\"}}'' \<and>
   fst (step_test (mock_agent test_tool prefixed_call) ''test task'') =
     (ANil, Some (''failed to extract tool call: failed to parse tool call: '' @ json_SyntaxError)) \<and>
   map ToolCalls (heap (memory (snd (step_test (mock_agent test_tool prefixed_call) ''test task'')))) =
     [[]] \<and>
   extractToolCall call_block = (''test_tool'', [(''arg1'', AString ''value1'')], None) \<and>
   fst (step_test (mock_agent test_tool call_block) ''test task'') = (ANil, None) \<and>
   map ToolCalls (heap (memory (snd (step_test (mock_agent test_tool call_block) ''test task'')))) =
     [[\<lparr>tc_Name = ''test_tool'', tc_Arguments = [(''arg1'', AString ''value1'')],
        tc_Output = AString ''tool output'', tc_Error = []\<rparr>]]"
  by code_simp

text \<open>
  C5, as amended.  In a step of the code agent whose model call returns a response: when
  the block of the example, \<open>result = add(a=1, b=2)\<close>, is among the code blocks of the
  response, no block before it yields a call of a registered tool, and a tool named \<open>add\<close>
  is registered, the block yields the call of \<open>add\<close> with \<open>a\<close> and \<open>b\<close> the integers 1 and
  2, and the step dispatches that tool with these arguments.  The block is the first code
  block of a response in which the fenced block of the example comes after text without a
  backquote.  When no code block yields a call of a registered tool, the step goes on with
  the JSON extraction of the direct strategy on the whole response: the response is the
  final answer when \<open>extractJSON\<close> takes no text or takes a text that decodes with an empty
  \<open>tool\<close>, and the step fails with the parse failure when the text does not decode.
\<close>

theorem C5_code_block_call_or_json_fallback:
  assumes "Generate (model a) (step_Messages step (memory a)) = (response, None)"
  shows "(\<forall>before after t.
            extractCodeBlocks response = before @ ''result = add(a=1, b=2)\<newline>'' # after \<and>
            (\<forall>block \<in> set before. fst (extractToolCallFromCode a block) = []) \<and>
            find (\<lambda>tool. Tool_Name tool = ''add'') (tools a) = Some t \<longrightarrow>
              extractToolCallFromCode a ''result = add(a=1, b=2)\<newline>'' =
                (''add'', [(''a'', AInt 1), (''b'', AInt 2)], None) \<and>
              fst (CodeAgent_Step a step) =
                (case Tool_Execute t [(''a'', AInt 1), (''b'', AInt 2)] of
                   (r, None) \<Rightarrow> (ANil, None)
                 | (r, Some e) \<Rightarrow> (ANil, Some (''failed to execute tool call: '' @ e)))) \<and>
         (\<forall>pre suffix.
            response = pre @ add_block @ suffix \<and> CHR 0x60 \<notin> set pre \<longrightarrow>
              extractCodeBlocks response =
                ''result = add(a=1, b=2)\<newline>'' # extractCodeBlocks suffix) \<and>
         ((\<forall>block \<in> set (extractCodeBlocks response). fst (extractToolCallFromCode a block) = []) \<longrightarrow>
            (extractJSON response = [] \<or>
             (\<exists>c. json_Unmarshal_call (extractJSON response) = Inr c \<and> call_Tool c = []) \<longrightarrow>
               fst (CodeAgent_Step a step) = (AString response, None)) \<and>
            (\<forall>e. extractJSON response \<noteq> [] \<and>
                  json_Unmarshal_call (extractJSON response) = Inl e \<longrightarrow>
               fst (CodeAgent_Step a step) =
                 (ANil, Some (''failed to extract tool call: failed to parse tool call: '' @ e))))"
proof (intro conjI allI impI)
  fix before after t
  assume h: "extractCodeBlocks response = before @ ''result = add(a=1, b=2)\<newline>'' # after \<and>
             (\<forall>block \<in> set before. fst (extractToolCallFromCode a block) = []) \<and>
             find (\<lambda>tool. Tool_Name tool = ''add'') (tools a) = Some t"
  then have blocks: "extractCodeBlocks response = before @ ''result = add(a=1, b=2)\<newline>'' # after"
    and none: "\<forall>block \<in> set before. fst (extractToolCallFromCode a block) = []"
    and t: "find (\<lambda>tool. Tool_Name tool = ''add'') (tools a) = Some t"
    by blast+
  have call: "extractToolCallFromCode a ''result = add(a=1, b=2)\<newline>'' =
      (''add'', [(''a'', AInt 1), (''b'', AInt 2)], None)"
    using t by (rule call_of_add_block)
  then show "extractToolCallFromCode a ''result = add(a=1, b=2)\<newline>'' =
      (''add'', [(''a'', AInt 1), (''b'', AInt 2)], None)" .
  have "CodeAgent_Step a step =
          executeAndAddResToMem
            (a\<lparr>memory := append_message step
                 \<lparr>Role = RoleAssistant, Content = response, Name = []\<rparr> (memory a)\<rparr>)
            step ''add'' [(''a'', AInt 1), (''b'', AInt 2)]"
    by (rule CodeAgent_Step_block[OF assms blocks none call]) simp
  moreover have "find (\<lambda>tool. Tool_Name tool = ''add'')
      (tools (a\<lparr>memory := append_message step
                 \<lparr>Role = RoleAssistant, Content = response, Name = []\<rparr> (memory a)\<rparr>)) = Some t"
    using t by simp
  ultimately show "fst (CodeAgent_Step a step) =
          (case Tool_Execute t [(''a'', AInt 1), (''b'', AInt 2)] of
             (r, None) \<Rightarrow> (ANil, None)
           | (r, Some e) \<Rightarrow> (ANil, Some (''failed to execute tool call: '' @ e)))"
    by (simp only: executeAndAddResToMem_result)
next
  fix pre suffix
  assume "response = pre @ add_block @ suffix \<and> CHR 0x60 \<notin> set pre"
  then show "extractCodeBlocks response = ''result = add(a=1, b=2)\<newline>'' # extractCodeBlocks suffix"
    using first_block_is_add by blast
next
  assume n: "\<forall>block \<in> set (extractCodeBlocks response). fst (extractToolCallFromCode a block) = []"
    and "extractJSON response = [] \<or>
         (\<exists>c. json_Unmarshal_call (extractJSON response) = Inr c \<and> call_Tool c = [])"
  then have f: "extractToolCall response = ([], [], None)"
    by (auto simp: extractToolCall_def Let_def)
  show "fst (CodeAgent_Step a step) = (AString response, None)"
    unfolding CodeAgent_Step_fallback[OF assms n] f by simp
next
  fix e
  assume n: "\<forall>block \<in> set (extractCodeBlocks response). fst (extractToolCallFromCode a block) = []"
    and "extractJSON response \<noteq> [] \<and> json_Unmarshal_call (extractJSON response) = Inl e"
  then have f: "extractToolCall response = ([], [], Some (''failed to parse tool call: '' @ e))"
    by (simp add: extractToolCall_def)
  show "fst (CodeAgent_Step a step) =
      (ANil, Some (''failed to extract tool call: failed to parse tool call: '' @ e))"
    unfolding CodeAgent_Step_fallback[OF assms n] f by simp
qed

text \<open>
  The block of the example is dispatched; a response without a fence is the answer; a
  block that calls \<open>multiply\<close>, which is not registered, and a fenced call in JSON whose
  argument is the number \<open>1e999\<close>, end the step with the parse failure.
\<close>

theorem C5_witness:
  "extractCodeBlocks add_block = [''result = add(a=1, b=2)\<newline>''] \<and>
   extractToolCallFromCode (opened_code_agent add_tool add_block) ''result = add(a=1, b=2)\<newline>'' =
     (''add'', [(''a'', AInt 1), (''b'', AInt 2)], None) \<and>
   fst (CodeAgent_Step (opened_code_agent add_tool add_block) 0) = (ANil, None) \<and>
   extractCodeBlocks ''This is a final answer'' = [] \<and>
   fst (CodeAgent_Step (opened_code_agent add_tool ''This is a final answer'') 0) =
     (AString ''This is a final answer'', None) \<and>
   fst (extractToolCallFromCode (opened_code_agent add_tool unknown_block)
          ''result = multiply(a=1, b=2)\<newline>'') = [] \<and>
   fst (CodeAgent_Step (opened_code_agent add_tool unknown_block) 0) =
     (ANil, Some (''failed to extract tool call: failed to parse tool call: '' @ json_SyntaxError)) \<and>
   fst (CodeAgent_Step (opened_code_agent add_tool out_of_range_call) 0) =
     (ANil, Some (''failed to extract tool call: failed to parse tool call: '' @
                  json_UnmarshalTypeError))"
proof -
  note add = C5_code_block_call_or_json_fallback
      [where a = "opened_code_agent add_tool add_block" and step = 0, OF generate_opened_code]
  note plain = C5_code_block_call_or_json_fallback
      [where a = "opened_code_agent add_tool ''This is a final answer''" and step = 0,
       OF generate_opened_code]
  note unknown = C5_code_block_call_or_json_fallback
      [where a = "opened_code_agent add_tool unknown_block" and step = 0, OF generate_opened_code]
  note range = C5_code_block_call_or_json_fallback
      [where a = "opened_code_agent add_tool out_of_range_call" and step = 0,
       OF generate_opened_code]
  have "add_block = [] @ add_block @ [] \<and> CHR 0x60 \<notin> set []"
    by simp
  then have "extractCodeBlocks add_block = ''result = add(a=1, b=2)\<newline>'' # extractCodeBlocks []"
    using add[THEN conjunct2, THEN conjunct1] by blast
  then have a1: "extractCodeBlocks add_block = [] @ ''result = add(a=1, b=2)\<newline>'' # []"
    by simp
  have a2: "find (\<lambda>tool. Tool_Name tool = ''add'') (tools (opened_code_agent add_tool add_block)) =
      Some add_tool"
    by (simp add: tools_opened_code add_tool_facts)
  have a3: "extractToolCallFromCode (opened_code_agent add_tool add_block)
        ''result = add(a=1, b=2)\<newline>'' = (''add'', [(''a'', AInt 1), (''b'', AInt 2)], None) \<and>
      fst (CodeAgent_Step (opened_code_agent add_tool add_block) 0) =
        (case Tool_Execute add_tool [(''a'', AInt 1), (''b'', AInt 2)] of
           (r, None) \<Rightarrow> (ANil, None)
         | (r, Some e) \<Rightarrow> (ANil, Some (''failed to execute tool call: '' @ e)))"
  proof -
    have b: "\<forall>block \<in> set []. fst (extractToolCallFromCode (opened_code_agent add_tool add_block) block) = []"
      by simp
    show ?thesis
      by (rule add[THEN conjunct1, rule_format, of "[]" "[]" add_tool, OF conjI[OF a1 conjI[OF b a2]]])
  qed
  then have a4: "fst (CodeAgent_Step (opened_code_agent add_tool add_block) 0) = (ANil, None)"
    by (simp add: add_tool_facts)
  have p1: "\<forall>block \<in> set (extractCodeBlocks ''This is a final answer'').
      fst (extractToolCallFromCode (opened_code_agent add_tool ''This is a final answer'') block) = []"
    by (simp only: blocks_plain) simp
  have p2: "fst (CodeAgent_Step (opened_code_agent add_tool ''This is a final answer'') 0) =
     (AString ''This is a final answer'', None)"
    using plain[THEN conjunct2, THEN conjunct2, THEN mp, OF p1, THEN conjunct1] extractJSON_plain
    by blast
  have u: "fst (extractToolCallFromCode (opened_code_agent add_tool unknown_block)
          ''result = multiply(a=1, b=2)\<newline>'') = []"
    by (simp add: extractToolCallFromCode_def find_call_unknown tools_opened_code add_tool_facts
        del: find_call.simps)
  have u1: "\<forall>block \<in> set (extractCodeBlocks unknown_block).
      fst (extractToolCallFromCode (opened_code_agent add_tool unknown_block) block) = []"
    using u by (simp only: blocks_unknown) simp
  have u0: "extractJSON unknown_block \<noteq> [] \<and>
      json_Unmarshal_call (extractJSON unknown_block) = Inl json_SyntaxError"
    by (simp only: extractJSON_unknown decode_unknown) simp
  have u2: "fst (CodeAgent_Step (opened_code_agent add_tool unknown_block) 0) =
     (ANil, Some (''failed to extract tool call: failed to parse tool call: '' @ json_SyntaxError))"
    using unknown[THEN conjunct2, THEN conjunct2, THEN mp, OF u1, THEN conjunct2] u0 by blast
  have "fst (extractToolCallFromCode (opened_code_agent add_tool out_of_range_call)
          ''{\"args\": {\"a\": 1e999}}\<newline>'') = []"
    by (simp add: extractToolCallFromCode_def find_call_out_of_range del: find_call.simps)
  then have r1: "\<forall>block \<in> set (extractCodeBlocks out_of_range_call).
      fst (extractToolCallFromCode (opened_code_agent add_tool out_of_range_call) block) = []"
    by (simp only: blocks_out_of_range) simp
  have r0: "extractJSON out_of_range_call \<noteq> [] \<and>
      json_Unmarshal_call (extractJSON out_of_range_call) = Inl json_UnmarshalTypeError"
    by (simp only: extractJSON_out_of_range_call decode_out_of_range) simp
  have r2: "fst (CodeAgent_Step (opened_code_agent add_tool out_of_range_call) 0) =
     (ANil, Some (''failed to extract tool call: failed to parse tool call: '' @
                  json_UnmarshalTypeError))"
    using range[THEN conjunct2, THEN conjunct2, THEN mp, OF r1, THEN conjunct2] r0 by blast
  show ?thesis
    using a1 a3 a4 p2 u u2 r2 blocks_plain by simp
qed

text \<open>
  A response whose only block calls \<open>multiply\<close>, which is no registered tool: the step ends
  with the parse failure of the JSON extraction, not with the response as the answer.  A
  response that holds the block of the example after a fence that is not closed: the one
  code block is the empty text between the two fences, \<open>add\<close> is not dispatched, and the
  response is the final answer.  A response that holds the block of the example after a
  block that calls \<open>add\<close> with 5 and 6: the step dispatches the call of the earlier block.
\<close>

theorem C5_counterexample:
  "extractCodeBlocks unknown_block = [''result = multiply(a=1, b=2)\<newline>''] \<and>
   extractToolCallFromCode (mock_code_agent add_tool 20 unknown_block)
       ''result = multiply(a=1, b=2)\<newline>'' = ([], [], None) \<and>
   fst (code_step_test (mock_code_agent add_tool 20 unknown_block) ''test task'') =
     (ANil, Some (''failed to extract tool call: failed to parse tool call: '' @ json_SyntaxError)) \<and>
   add_after_open_fence = ''```\<newline>```go\<newline>result = add(a=1, b=2)\<newline>```'' \<and>
   extractCodeBlocks add_after_open_fence = [[]] \<and>
   fst (code_step_test (mock_code_agent add_tool 20 add_after_open_fence) ''test task'') =
     (AString add_after_open_fence, None) \<and>
   map ToolCalls
     (heap (memory (snd (code_step_test (mock_code_agent add_tool 20 add_after_open_fence)
                           ''test task'')))) = [[]] \<and>
   extractCodeBlocks add_after_other_call =
     [''result = add(a=5, b=6)\<newline>'', ''result = add(a=1, b=2)\<newline>''] \<and>
   fst (code_step_test (mock_code_agent add_tool 20 add_after_other_call) ''test task'') =
     (ANil, None) \<and>
   map ToolCalls
     (heap (memory (snd (code_step_test (mock_code_agent add_tool 20 add_after_other_call)
                           ''test task'')))) =
     [[\<lparr>tc_Name = ''add'', tc_Arguments = [(''a'', AInt 5), (''b'', AInt 6)],
        tc_Output = AInt 3, tc_Error = []\<rparr>]]"
  by code_simp

text \<open>
  C9, as amended.  In an iteration of the loop whose step function returns no failure: a
  result that is not nil closes the step and ends the loop with that result as the final
  answer; the nil result closes the step and the loop goes on with the iterations that are
  left.  The empty string is a result that is not nil.
\<close>

theorem C9_nil_result_continues_other_result_ends:
  assumes "stepf (snd (open_action a task)) (fst (open_action a task)) = ((result, None), a')"
  shows "(result \<noteq> ANil \<longrightarrow>
            run_steps stepf task (Suc k) a = ((result, None), close_step a')) \<and>
         (result = ANil \<longrightarrow>
            run_steps stepf task (Suc k) a = run_steps stepf task k (close_step a')) \<and>
         curStep (memory (close_step a')) = None"
  using assms by (simp add: open_action_def close_step_def Let_def split_def)

theorem C9_witness:
  "BaseAgent_call_step (snd (open_action (answering_agent (AString [])) ''test task''))
       (fst (open_action (answering_agent (AString [])) ''test task'')) =
     ((AString [], None), snd (open_action (answering_agent (AString [])) ''test task'')) \<and>
   run_steps BaseAgent_call_step ''test task'' (Suc 0) (answering_agent (AString [])) =
     ((AString [], None), close_step (snd (open_action (answering_agent (AString [])) ''test task''))) \<and>
   BaseAgent_call_step (snd (open_action (answering_agent ANil) ''test task''))
       (fst (open_action (answering_agent ANil) ''test task'')) =
     ((ANil, None), snd (open_action (answering_agent ANil) ''test task'')) \<and>
   run_steps BaseAgent_call_step ''test task'' (Suc 0) (answering_agent ANil) =
     run_steps BaseAgent_call_step ''test task'' 0
       (close_step (snd (open_action (answering_agent ANil) ''test task'')))"
  using C9_nil_result_continues_other_result_ends
          [where stepf = BaseAgent_call_step and a = "answering_agent (AString [])"
             and task = "''test task''" and result = "AString []" and k = 0
             and a' = "snd (open_action (answering_agent (AString [])) ''test task'')",
           OF answering_step]
    C9_nil_result_continues_other_result_ends
          [where stepf = BaseAgent_call_step and a = "answering_agent ANil"
             and task = "''test task''" and result = ANil and k = 0
             and a' = "snd (open_action (answering_agent ANil) ''test task'')",
           OF answering_step]
    answering_step
  by simp

text \<open>
  The model answers with the empty string: the step returns it as the final text, and the
  run ends at that step with the empty string as its answer.
\<close>

theorem C9_counterexample:
  "fst (step_test (mock_agent test_tool []) ''test task'') = (AString [], None) \<and>
   fst (ToolCallingAgent_Run (mock_agent test_tool []) ''test task'') = (AString [], None)"
  by code_simp

section \<open>Properties of function tools\<close>

declare digits_of.simps [simp del]

lemma of_char_char_of_int: "m < 256 \<Longrightarrow> (of_char (char_of (m::nat)) :: int) = int m"
  by (metis of_nat_of_char of_char_of mod_less)

lemma decimal_value_snoc:
  "decimal_value (ds @ [c]) = 10 * decimal_value ds + (of_char c - 48)"
  by (simp add: decimal_value_def)

lemma decimal_value_digits_of: "decimal_value (digits_of n) = int n"
proof (induction n rule: digits_of.induct)
  case (1 n)
  show ?case
  proof (cases "n < 10")
    case True
    then show ?thesis
      by (subst digits_of.simps) (simp add: decimal_value_def of_char_char_of_int)
  next
    case False
    have m: "(of_char (char_of (48 + n mod 10)) :: int) = 48 + int (n mod 10)"
      by (subst of_char_char_of_int) simp_all
    have "decimal_value (digits_of n) =
            10 * decimal_value (digits_of (n div 10)) + (of_char (char_of (48 + n mod 10)) - 48)"
      using False by (subst digits_of.simps) (simp add: decimal_value_snoc)
    also have "\<dots> = 10 * int (n div 10) + int (n mod 10)"
      using 1[OF False] m by simp
    also have "\<dots> = int n"
      by (simp add: zdiv_int zmod_int)
    finally show ?thesis .
  qed
qed

lemma arg_name_inj: "arg_name i = arg_name j \<Longrightarrow> i = j"
proof -
  assume "arg_name i = arg_name j"
  then have "digits_of i = digits_of j"
    by (simp add: arg_name_def fmt_d_def)
  then have "decimal_value (digits_of i) = decimal_value (digits_of j)"
    by simp
  then show "i = j"
    by (simp add: decimal_value_digits_of)
qed

lemma update_fresh: "k \<notin> fst ` set al \<Longrightarrow> AList.update k v al = al @ [(k, v)]"
  by (induction al) auto

lemma goTypeToJSONType_supported:
  "schema_supported (type_Kind t) \<Longrightarrow> \<exists>j. goTypeToJSONType t = Inr j"
  by (auto simp: schema_supported_def goTypeToJSONType_def Let_def)

lemma createSchema_loop_names:
  assumes "\<forall>T \<in> set ins. schema_supported (type_Kind T)"
    and "map fst properties = map arg_name [0..<i]"
  shows "\<exists>ps. createSchema_loop i ins properties required =
                 Inr (ps, required @ map arg_name [i..<i + length ins]) \<and>
              map fst ps = map arg_name [0..<i + length ins]"
  using assms
proof (induction ins arbitrary: i properties required)
  case Nil
  then show ?case by simp
next
  case (Cons T ins)
  obtain j where j: "goTypeToJSONType T = Inr j"
    using Cons.prems(1) goTypeToJSONType_supported by auto
  let ?p = "\<lparr>pd_Type = j,
             pd_Description = ''Parameter '' @ fmt_d (int i) @ '' of type '' @ type_String T,
             pd_Enum = [], pd_Default = ANil\<rparr>"
  have fresh: "arg_name i \<notin> fst ` set properties"
  proof
    assume "arg_name i \<in> fst ` set properties"
    then have "arg_name i \<in> set (map fst properties)" by simp
    then have "arg_name i \<in> arg_name ` {0..<i}" using Cons.prems(2) by simp
    then obtain k where "k < i" "arg_name i = arg_name k" by auto
    then show False using arg_name_inj by blast
  qed
  have upd: "AList.update (arg_name i) ?p properties = properties @ [(arg_name i, ?p)]"
    using fresh by (rule update_fresh)
  have names: "map fst (properties @ [(arg_name i, ?p)]) = map arg_name [0..<Suc i]"
    using Cons.prems(2) by simp
  obtain ps where ps:
    "createSchema_loop (Suc i) ins (properties @ [(arg_name i, ?p)]) (required @ [arg_name i]) =
       Inr (ps, (required @ [arg_name i]) @ map arg_name [Suc i..<Suc i + length ins])"
    "map fst ps = map arg_name [0..<Suc i + length ins]"
    using Cons.IH[OF _ names, of "required @ [arg_name i]"] Cons.prems(1) by auto
  have "i < i + length (T # ins)"
    by simp
  from upt_conv_Cons[OF this]
  have "[i..<i + length (T # ins)] = i # [Suc i..<Suc i + length ins]"
    by simp
  then show ?case
    using j upd ps by (simp add: Let_def)
qed


lemma arg_name_0: "arg_name 0 = ''arg0''"
  by code_simp


lemma arg_name_Suc_0: "arg_name (Suc 0) = ''arg1''"
  by code_simp

lemma fmt_d_0_1: "fmt_d 0 = ''0''" "fmt_d 1 = ''1''"
  by code_simp+

lemma New_add:
  "NewFunctionTool ''add'' ''Adds two numbers'' (FuncValue add_fnType add_fn) = Inr add_function_tool"
  by (simp add: NewFunctionTool_def createSchemaFromFunction_def add_fnType_def goTypeToJSONType_def
      int_type_def add_function_tool_def integer_property_def arg_name_0 arg_name_Suc_0 fmt_d_0_1 Let_def)


lemma New_check:
  "NewFunctionTool ''check'' ''Checks the service'' (FuncValue check_fnType check_fn) =
     Inr check_function_tool"
  by (simp add: NewFunctionTool_def createSchemaFromFunction_def check_fnType_def
      check_function_tool_def)









section \<open>The claims about function tools\<close>


text \<open>
  C7.  For a function all of whose parameters have a kind \<open>goTypeToJSONType\<close> supports,
  \<open>createSchemaFromFunction\<close> returns a schema of type \<open>object\<close> whose properties are named
  \<open>arg0\<close> .. \<open>arg(N-1)\<close> in the order of the parameters, each name once, and whose required
  list is the same list of names; \<open>NewFunctionTool\<close>, given a name and a description,
  returns a tool with that schema.
\<close>

theorem C7_schema_names_every_parameter:
  assumes "\<forall>T \<in> set (fn_In fnType). schema_supported (type_Kind T)"
  shows "\<exists>schema.
           createSchemaFromFunction fnType = Inr schema \<and>
           ts_Type schema = ''object'' \<and>
           map fst (ts_Properties schema) = map arg_name [0..<length (fn_In fnType)] \<and>
           distinct (map fst (ts_Properties schema)) \<and>
           ts_Required schema = map arg_name [0..<length (fn_In fnType)] \<and>
           (nm \<noteq> [] \<and> desc \<noteq> [] \<longrightarrow>
              (\<exists>tool. NewFunctionTool nm desc (FuncValue fnType impl) = Inr tool \<and>
                      ft_schema tool = schema))"
proof -
  obtain ps where ps:
    "createSchema_loop 0 (fn_In fnType) [] [] = Inr (ps, map arg_name [0..<length (fn_In fnType)])"
    "map fst ps = map arg_name [0..<length (fn_In fnType)]"
    using createSchema_loop_names[OF assms, of "[]" 0 "[]"] by auto
  have "distinct (map arg_name [0..<length (fn_In fnType)])"
    by (simp add: distinct_map inj_on_def) (use arg_name_inj in blast)
  then show ?thesis
    using ps by (simp add: createSchemaFromFunction_def NewFunctionTool_def)
qed

text \<open>
  The function \<open>add\<close> of the tests: two parameters of kind \<open>int\<close>, the properties \<open>arg0\<close>
  and \<open>arg1\<close>, both required.
\<close>

theorem C7_witness:
  "schema_supported (type_Kind int_type) \<and>
   createSchemaFromFunction add_fnType =
     Inr \<lparr>ts_Type = ''object'',
          ts_Properties = [(''arg0'', integer_property 0), (''arg1'', integer_property 1)],
          ts_Required = [''arg0'', ''arg1'']\<rparr> \<and>
   NewFunctionTool ''add'' ''Adds two numbers'' (FuncValue add_fnType add_fn) = Inr add_function_tool"
proof -
  have s: "schema_supported (type_Kind int_type)"
    by (simp add: schema_supported_def int_type_def)
  then have "\<forall>T \<in> set (fn_In add_fnType). schema_supported (type_Kind T)"
    by (simp add: add_fnType_def)
  from C7_schema_names_every_parameter[OF this, of "''add''" "''Adds two numbers''" add_fn]
  obtain schema where
    "createSchemaFromFunction add_fnType = Inr schema"
    "NewFunctionTool ''add'' ''Adds two numbers'' (FuncValue add_fnType add_fn) = Inr add_function_tool
       \<longrightarrow> ft_schema add_function_tool = schema"
    by auto
  then show ?thesis
    using s New_add by (simp add: add_function_tool_def)
qed






end
